theory Spec2Isabelle
  imports Complex_Main
begin

section \<open>Values, errors and the camera driver\<close>

text \<open>
  The repository is a camera server: \<^verbatim>\<open>camera_manager.py\<close> holds the class
  \<^verbatim>\<open>CameraManager\<close> (a capture thread publishing the latest frame under a lock, and
  property setters on the capture handle), \<^verbatim>\<open>main.py\<close> holds the WebSocket control
  handler \<^verbatim>\<open>ws_control\<close> and the MJPEG endpoint.

  Python \<^verbatim>\<open>bytes\<close> are lists of \<^typ>\<open>char\<close> (a HOL character is a byte). A frame
  is an opaque pixel buffer.
\<close>

type_synonym bytes = string
type_synonym frame = "nat list"

text \<open>
  A Python float is a number, an infinity or not-a-number; \<^verbatim>\<open>json.loads\<close> and
  \<^verbatim>\<open>float()\<close> produce all four. The program computes with none of them, it only passes
  them on.
\<close>

datatype pyfloat =
    Num real
  | PosInf
  | NegInf
  | NaN

text \<open>Exceptions, each with the text that \<^verbatim>\<open>str(e)\<close> gives.\<close>

datatype error =
    RuntimeError string
  | ValueError string
  | TypeError string
  | AttributeError string
  | OverflowError string

fun str_exc :: "error \<Rightarrow> string" where
  "str_exc (RuntimeError m) = m"
| "str_exc (ValueError m) = m"
| "str_exc (TypeError m) = m"
| "str_exc (AttributeError m) = m"
| "str_exc (OverflowError m) = m"

text \<open>
  The capture handle \<^verbatim>\<open>cv2.VideoCapture\<close> belongs to OpenCV, not to the repository.
  Its behaviour is a parameter of the model: a handle has a state of type \<open>'d\<close>, and the
  driver says how each method answers and changes that state. The program never uses a
  handle again after \<^verbatim>\<open>release()\<close>, so a release is recorded as a call and its effect on
  the handle is left out.
\<close>

record 'd driver =
  isOpened :: "'d \<Rightarrow> bool"
  cap_set :: "'d \<Rightarrow> int \<Rightarrow> pyfloat \<Rightarrow> bool \<times> 'd"
  cap_get :: "'d \<Rightarrow> int \<Rightarrow> pyfloat"

text \<open>The calls made on the driver are recorded, in order, in a history.\<close>

datatype call =
    VideoCapture int int
  | IsOpened
  | CapSet int pyfloat
  | CapGet int
  | CapRead
  | CapRelease

fun is_write :: "call \<Rightarrow> bool" where
  "is_write (CapSet p v) = True"
| "is_write c = False"

text \<open>The writes among the calls of a history.\<close>

definition writes :: "call list \<Rightarrow> call list" where
  "writes cs = filter is_write cs"

text \<open>OpenCV's property identifiers, with the values of its public headers.\<close>

abbreviation CAP_PROP_FRAME_WIDTH :: int where "CAP_PROP_FRAME_WIDTH \<equiv> 3"
abbreviation CAP_PROP_FRAME_HEIGHT :: int where "CAP_PROP_FRAME_HEIGHT \<equiv> 4"
abbreviation CAP_PROP_FOURCC :: int where "CAP_PROP_FOURCC \<equiv> 6"
abbreviation CAP_PROP_GAIN :: int where "CAP_PROP_GAIN \<equiv> 14"
abbreviation CAP_PROP_EXPOSURE :: int where "CAP_PROP_EXPOSURE \<equiv> 15"
abbreviation CAP_PROP_AUTO_EXPOSURE :: int where "CAP_PROP_AUTO_EXPOSURE \<equiv> 21"
abbreviation CAP_PROP_ZOOM :: int where "CAP_PROP_ZOOM \<equiv> 27"
abbreviation CAP_PROP_FOCUS :: int where "CAP_PROP_FOCUS \<equiv> 28"
abbreviation CAP_PROP_AUTOFOCUS :: int where "CAP_PROP_AUTOFOCUS \<equiv> 39"
abbreviation CAP_PROP_AUTO_WB :: int where "CAP_PROP_AUTO_WB \<equiv> 44"
abbreviation CAP_V4L2 :: int where "CAP_V4L2 \<equiv> 200"
abbreviation IMWRITE_JPEG_QUALITY :: int where "IMWRITE_JPEG_QUALITY \<equiv> 1"

text \<open>The exception of an attribute access on an object that lacks the attribute.\<close>

definition no_attribute :: "string \<Rightarrow> string \<Rightarrow> error" where
  "no_attribute tyname attr =
     AttributeError (CHR 0x27 # tyname @ CHR 0x27 # '' object has no attribute '' @
       CHR 0x27 # attr @ [CHR 0x27])"

subsection \<open>Decimal text of numbers\<close>

text \<open>\<^verbatim>\<open>str(n)\<close> of a Python integer, as used by the f-strings of the source.\<close>

definition digit_char :: "nat \<Rightarrow> char" where
  "digit_char d = char_of (48 + d)"

function str_nat :: "nat \<Rightarrow> string" where
  "str_nat n = (if n < 10 then [digit_char n] else str_nat (n div 10) @ [digit_char (n mod 10)])"
  by pat_completeness auto
termination
  by (relation "measure (\<lambda>n. n)") auto

declare str_nat.simps [simp del]

definition str_int :: "int \<Rightarrow> string" where
  "str_int i = (if i < 0 then CHR ''-'' # str_nat (nat (- i)) else str_nat (nat i))"

text \<open>Reading a decimal text back, to say what a text of digits denotes.\<close>

definition digit_val :: "char \<Rightarrow> nat" where
  "digit_val c = of_char c - 48"

definition nat_of_digits :: "string \<Rightarrow> nat" where
  "nat_of_digits cs = foldl (\<lambda>a c. 10 * a + digit_val c) 0 cs"

subsection \<open>The pixel format code\<close>

text \<open>
  \<^verbatim>\<open>cv2.VideoWriter_fourcc(c1, c2, c3, c4)\<close> packs four characters into a signed 32-bit
  integer, the first in the low byte: a fourth byte of 128 or more gives a negative
  code. Of a character outside ASCII OpenCV takes the first byte of its UTF-8 encoding;
  a character of \<^verbatim>\<open>fourcc\<close> is represented here by that byte. The source calls the
  function with \<^verbatim>\<open>*self.fourcc\<close>, so a string that does not have exactly four characters
  gives the wrong number of arguments, which the argument parser of CPython refuses.
\<close>

definition wrong_arity :: "nat \<Rightarrow> error" where
  "wrong_arity n =
     (if n < 4 then
        TypeError (''VideoWriter_fourcc() missing required argument '' @
          CHR 0x27 # ''c'' @ str_nat (n + 1) @ CHR 0x27 # '' (pos '' @ str_nat (n + 1) @ '')'')
      else
        TypeError (''VideoWriter_fourcc() takes at most 4 arguments ('' @ str_nat n @
          '' given)''))"

definition int32 :: "int \<Rightarrow> int" where
  "int32 u = (if u < 2147483648 then u else u - 4294967296)"

definition VideoWriter_fourcc :: "string \<Rightarrow> error + int" where
  "VideoWriter_fourcc cs =
     (case cs of
        [c1, c2, c3, c4] \<Rightarrow>
          Inr (int32 (of_char c1 + 256 * of_char c2 + 65536 * of_char c3 +
                      16777216 * of_char c4))
      | _ \<Rightarrow> Inl (wrong_arity (length cs)))"

section \<open>CameraManager\<close>

text \<open>
  The fields of the class, followed by three components that are not fields of the class
  but belong to the running program: the capture threads started so far (each with its
  position in \<^verbatim>\<open>_capture_loop\<close>), the history of driver calls, and the lines printed.
  \<^verbatim>\<open>self.thread\<close> is the index of the thread started last. \<open>joining\<close> is true while
  \<^verbatim>\<open>stop()\<close> is between its two locked blocks, in \<^verbatim>\<open>thread.join(timeout=1.0)\<close>.
\<close>

datatype 'd pc =
    P_Init
  | P_Opened 'd
  | P_OpenFailed error
  | P_Loop
  | P_Read
  | P_Publish "frame option"
  | P_Stopping
  | P_Done

record 'd camera_manager =
  cap :: "'d option"
  running :: bool
  last_frame :: "frame option"
  thread :: "nat option"
  device_index :: int
  width :: int
  height :: int
  prefer_backend :: int
  fourcc :: string
  threads :: "'d pc list"
  joining :: bool
  calls :: "call list"
  stdout :: "string list"

text \<open>\<^verbatim>\<open>CameraManager.__init__\<close>.\<close>

definition init :: "int \<Rightarrow> int \<Rightarrow> int \<Rightarrow> int \<Rightarrow> string \<Rightarrow> 'd camera_manager" where
  "init idx w h backend fcc =
     \<lparr> cap = None, running = False, last_frame = None, thread = None,
       device_index = idx, width = w, height = h, prefer_backend = backend, fourcc = fcc,
       threads = [], joining = False, calls = [], stdout = [] \<rparr>"

text \<open>The instance that \<^verbatim>\<open>main.py\<close> creates.\<close>

definition camera :: "'d camera_manager" where
  "camera = init 0 1920 1080 CAP_V4L2 ''YUYV''"

definition called :: "call list \<Rightarrow> 'd camera_manager \<Rightarrow> 'd camera_manager" where
  "called cs s = s\<lparr>calls := calls s @ cs\<rparr>"

definition print :: "string \<Rightarrow> 'd camera_manager \<Rightarrow> 'd camera_manager" where
  "print line s = s\<lparr>stdout := stdout s @ [line]\<rparr>"

subsection \<open>start and stop\<close>

text \<open>
  \<^verbatim>\<open>start\<close>: one locked block, then the thread is created and started. No other thread
  reads \<^verbatim>\<open>self.thread\<close> and the new thread begins at \<open>P_Init\<close>, so the two are one step.
\<close>

definition start :: "'d camera_manager \<Rightarrow> 'd camera_manager" where
  "start s =
     (if running s then s
      else s\<lparr>running := True, thread := Some (length (threads s)),
             threads := threads s @ [P_Init]\<rparr>)"

text \<open>
  \<^verbatim>\<open>stop\<close> has two locked blocks with the bounded join between them. The first only
  clears \<^verbatim>\<open>running\<close>; the second releases the handle (an exception of the release is
  swallowed) and clears \<^verbatim>\<open>cap\<close> and \<^verbatim>\<open>last_frame\<close>.
\<close>

definition stop_lock1 :: "'d camera_manager \<Rightarrow> 'd camera_manager" where
  "stop_lock1 s = s\<lparr>running := False\<rparr>"

definition stop_lock2 :: "'d camera_manager \<Rightarrow> 'd camera_manager" where
  "stop_lock2 s =
     (case cap s of
        None \<Rightarrow> s
      | Some c \<Rightarrow> called [CapRelease] s)\<lparr>cap := None, last_frame := None\<rparr>"

text \<open>\<^verbatim>\<open>stop\<close> when no capture thread takes a step during the join.\<close>

definition stop :: "'d camera_manager \<Rightarrow> 'd camera_manager" where
  "stop s = stop_lock2 (stop_lock1 s)"

subsection \<open>Opening the camera\<close>

text \<open>
  \<^verbatim>\<open>_open_camera\<close>. The handle \<open>h\<close> is what \<^verbatim>\<open>cv2.VideoCapture(index, backend)\<close>
  returned: whether it is opened is decided by the machine, not by the program. The
  result of each \<^verbatim>\<open>cap.set\<close> is ignored, as in the source.
\<close>

definition apply_set :: "'d driver \<Rightarrow> int \<Rightarrow> pyfloat \<Rightarrow> 'd \<times> 'd camera_manager \<Rightarrow> 'd \<times> 'd camera_manager" where
  "apply_set D p v cs = (snd (cap_set D (fst cs) p v), called [CapSet p v] (snd cs))"

definition open_camera ::
  "'d driver \<Rightarrow> 'd \<Rightarrow> 'd camera_manager \<Rightarrow> (error + 'd) \<times> 'd camera_manager" where
  "open_camera D h s =
     (let s0 = called [VideoCapture (device_index s) (prefer_backend s), IsOpened] s in
      if \<not> isOpened D h then
        (Inl (RuntimeError (''Cannot open camera index='' @ str_int (device_index s))),
         called [CapRelease] s0)
      else
        (case (if fourcc s \<noteq> [] then
                 (case VideoWriter_fourcc (fourcc s) of
                    Inl e \<Rightarrow> Inl e
                  | Inr code \<Rightarrow> Inr (apply_set D CAP_PROP_FOURCC (Num (real_of_int code)) (h, s0)))
               else Inr (h, s0)) of
           Inl e \<Rightarrow> (Inl e, s0)
         | Inr cs1 \<Rightarrow>
             (let cs2 = apply_set D CAP_PROP_FRAME_WIDTH (Num (real_of_int (width s))) cs1;
                  cs3 = apply_set D CAP_PROP_FRAME_HEIGHT (Num (real_of_int (height s))) cs2;
                  cs4 = apply_set D CAP_PROP_AUTO_EXPOSURE (Num 1) cs3;
                  cs5 = apply_set D CAP_PROP_AUTO_WB (Num 0) cs4;
                  cs6 = apply_set D CAP_PROP_AUTOFOCUS (Num 0) cs5
              in (Inr (fst cs6), snd cs6))))"

text \<open>
  The settings that the open routine is to apply, in order: the pixel format code when
  there is one, the size, and the three flags.
\<close>

definition settings :: "'d camera_manager \<Rightarrow> int option \<Rightarrow> (int \<times> pyfloat) list" where
  "settings s code =
     (case code of None \<Rightarrow> [] | Some k \<Rightarrow> [(CAP_PROP_FOURCC, Num (real_of_int k))]) @
     [(CAP_PROP_FRAME_WIDTH, Num (real_of_int (width s))),
      (CAP_PROP_FRAME_HEIGHT, Num (real_of_int (height s))),
      (CAP_PROP_AUTO_EXPOSURE, Num 1), (CAP_PROP_AUTO_WB, Num 0), (CAP_PROP_AUTOFOCUS, Num 0)]"

subsection \<open>The capture thread\<close>

text \<open>
  \<^verbatim>\<open>_capture_loop\<close>, cut at its locked blocks and at its blocking calls. A thread is at
  one of the positions of \<^typ>\<open>'d pc\<close>:
  \<^item> \<open>P_Init\<close>: before \<^verbatim>\<open>_open_camera\<close>;
  \<^item> \<open>P_Opened c\<close>: the open returned the handle \<open>c\<close>, before \<^verbatim>\<open>self.cap = cap\<close>;
  \<^item> \<open>P_OpenFailed e\<close>: the open raised \<open>e\<close>, before the locked block of the handler;
  \<^item> \<open>P_Loop\<close>: at the head of the \<^verbatim>\<open>while\<close>;
  \<^item> \<open>P_Read\<close>: in \<^verbatim>\<open>cap_ref.read()\<close>, outside the lock;
  \<^item> \<open>P_Publish f\<close>: the read succeeded, before \<^verbatim>\<open>self.last_frame = frame\<close>;
  \<^item> \<open>P_Stopping\<close>: after a \<^verbatim>\<open>break\<close>, before the final locked block;
  \<^item> \<open>P_Done\<close>: returned.

  What the machine answers is an input of the step: the handle that
  \<^verbatim>\<open>cv2.VideoCapture\<close> returns, and the pair that \<^verbatim>\<open>read()\<close> returns. \<^verbatim>\<open>cap_ref\<close> is a
  second reference to the object in \<^verbatim>\<open>self.cap\<close>; nothing but \<^verbatim>\<open>read()\<close> is called on it.
\<close>

datatype 'd answer =
    NewHandle 'd
  | ReadResult bool "frame option"
  | Tau

definition set_pc :: "nat \<Rightarrow> 'd pc \<Rightarrow> 'd camera_manager \<Rightarrow> 'd camera_manager" where
  "set_pc i p s = s\<lparr>threads := (threads s)[i := p]\<rparr>"

fun capture_loop :: "'d driver \<Rightarrow> 'd pc \<Rightarrow> 'd answer \<Rightarrow> 'd camera_manager \<Rightarrow>
    ('d pc \<times> 'd camera_manager) option" where
  "capture_loop D P_Init (NewHandle h) s =
     (case open_camera D h s of
        (Inl e, s') \<Rightarrow> Some (P_OpenFailed e, s')
      | (Inr c, s') \<Rightarrow> Some (P_Opened c, s'))"
| "capture_loop D (P_OpenFailed e) Tau s =
     Some (P_Done,
       print (''[CAM] open failed: '' @ str_exc e)
         (s\<lparr>running := False, cap := None, last_frame := None\<rparr>))"
| "capture_loop D (P_Opened c) Tau s =
     Some (P_Loop, print ''[CAM] capture started'' (s\<lparr>cap := Some c\<rparr>))"
| "capture_loop D P_Loop Tau s =
     (if \<not> running s then Some (P_Stopping, s)
      else (case cap s of
              None \<Rightarrow> Some (P_Stopping, s)
            | Some cap_ref \<Rightarrow> Some (P_Read, s)))"
| "capture_loop D P_Read (ReadResult ok frm) s =
     (if \<not> ok then Some (P_Loop, called [CapRead] s)
      else Some (P_Publish frm, called [CapRead] s))"
| "capture_loop D (P_Publish frm) Tau s = Some (P_Loop, s\<lparr>last_frame := frm\<rparr>)"
| "capture_loop D P_Stopping Tau s =
     Some (P_Done,
       (case cap s of
          None \<Rightarrow> print ''[CAM] capture stopping'' s
        | Some c \<Rightarrow> called [CapRelease] (print ''[CAM] capture stopping'' s))
       \<lparr>cap := None, last_frame := None\<rparr>)"
| "capture_loop D p a s = None"

subsection \<open>The threads together\<close>

text \<open>
  The program as a transition system. \<^verbatim>\<open>start\<close> and \<^verbatim>\<open>stop\<close> are called from the one
  thread of the event loop, so they never overlap one another; the capture threads take
  their steps at any time, also between the two locked blocks of \<^verbatim>\<open>stop\<close>. The join
  returns when the thread has ended or the timeout has passed: the model does not
  measure time, \<open>StopEnd\<close> may come after any number of steps of the capture threads.
\<close>

datatype 'd event =
    Start
  | StopBegin
  | StopEnd
  | Producer nat "'d answer"

fun step :: "'d driver \<Rightarrow> 'd event \<Rightarrow> 'd camera_manager \<Rightarrow> 'd camera_manager option" where
  "step D Start s = (if joining s then None else Some (start s))"
| "step D StopBegin s = (if joining s then None else Some ((stop_lock1 s)\<lparr>joining := True\<rparr>))"
| "step D StopEnd s = (if joining s then Some ((stop_lock2 s)\<lparr>joining := False\<rparr>) else None)"
| "step D (Producer i a) s =
     (if i < length (threads s) then
        (case capture_loop D (threads s ! i) a s of
           None \<Rightarrow> None
         | Some (p, s') \<Rightarrow> Some (set_pc i p s'))
      else None)"

fun run :: "'d driver \<Rightarrow> 'd event list \<Rightarrow> 'd camera_manager \<Rightarrow> 'd camera_manager option" where
  "run D [] s = Some s"
| "run D (e # es) s = (case step D e s of None \<Rightarrow> None | Some s' \<Rightarrow> run D es s')"



text \<open>
  The steps that the capture threads take while a call of the event loop's thread is
  outside its locked blocks: in the join of \<^verbatim>\<open>stop\<close>, and between the two locked blocks of
  a setter. Each entry names a thread and what the machine answers it; an entry that the
  thread cannot act on at that point is passed over.
\<close>

definition capture_steps ::
  "'d driver \<Rightarrow> (nat \<times> 'd answer) list \<Rightarrow> 'd camera_manager \<Rightarrow> 'd camera_manager" where
  "capture_steps D between s =
     foldl (\<lambda>s' (i, a). case step D (Producer i a) s' of None \<Rightarrow> s' | Some s'' \<Rightarrow> s'')
       s between"

text \<open>\<^verbatim>\<open>stop\<close> with the steps that the capture threads take during the join.\<close>

definition stop_join ::
  "'d driver \<Rightarrow> (nat \<times> 'd answer) list \<Rightarrow> 'd camera_manager \<Rightarrow> 'd camera_manager" where
  "stop_join D between s = stop_lock2 (capture_steps D between (stop_lock1 s))"

subsection \<open>Property setters\<close>

text \<open>\<^verbatim>\<open>_ensure_open\<close>: the text of its exception is what a closed session is told.\<close>

abbreviation NotOpenError :: error where
  "NotOpenError \<equiv> RuntimeError ''Camera is not started/opened''"

definition ensure_open :: "'d driver \<Rightarrow> 'd camera_manager \<Rightarrow> (error + unit) \<times> 'd camera_manager" where
  "ensure_open D s =
     (case cap s of
        None \<Rightarrow> (Inl NotOpenError, s)
      | Some c \<Rightarrow>
          if \<not> isOpened D c then (Inl NotOpenError, called [IsOpened] s)
          else (Inr (), called [IsOpened] s))"

text \<open>The dictionary that every setter returns.\<close>

record prop_result =
  ok :: bool
  requested :: pyfloat
  applied :: pyfloat

text \<open>The session is open when there is a handle and the driver says it is opened.\<close>

definition is_open :: "'d driver \<Rightarrow> 'd camera_manager \<Rightarrow> bool" where
  "is_open D s = (case cap s of None \<Rightarrow> False | Some c \<Rightarrow> isOpened D c)"

text \<open>
  What a write of \<open>v\<close> to the property \<open>p\<close> of the handle \<open>c\<close> should report: the answer of
  the driver's write, the value asked for, and the driver's readback of \<open>p\<close> from the
  handle as the write left it.
\<close>

definition readback_result :: "'d driver \<Rightarrow> 'd \<Rightarrow> int \<Rightarrow> pyfloat \<Rightarrow> prop_result" where
  "readback_result D c p v =
     \<lparr>ok = fst (cap_set D c p v), requested = v,
      applied = cap_get D (snd (cap_set D c p v)) p\<rparr>"

text \<open>
  The second locked block of a setter: the write, then the readback of the same
  property. When \<^verbatim>\<open>self.cap\<close> is \<^verbatim>\<open>None\<close> by now, the attribute access raises.
\<close>

definition write_readback ::
  "'d driver \<Rightarrow> int \<Rightarrow> pyfloat \<Rightarrow> 'd camera_manager \<Rightarrow> (error + prop_result) \<times> 'd camera_manager" where
  "write_readback D p v s =
     (case cap s of
        None \<Rightarrow> (Inl (no_attribute ''NoneType'' ''set''), s)
      | Some c \<Rightarrow>
          (let (okv, c') = cap_set D c p v;
               readback = cap_get D c' p
           in (Inr \<lparr>ok = okv, requested = v, applied = readback\<rparr>,
               called [CapSet p v, CapGet p] (s\<lparr>cap := Some c'\<rparr>))))"

text \<open>
  A setter: \<^verbatim>\<open>_ensure_open\<close> in a locked block of its own, then the write and the
  readback in a second locked block. The lock is free between the two, and \<open>between\<close>
  lists the steps that the capture threads take there.
\<close>

definition set_property ::
  "'d driver \<Rightarrow> int \<Rightarrow> pyfloat \<Rightarrow> (nat \<times> 'd answer) list \<Rightarrow> 'd camera_manager \<Rightarrow>
     (error + prop_result) \<times> 'd camera_manager" where
  "set_property D p v between s =
     (case ensure_open D s of
        (Inl e, s') \<Rightarrow> (Inl e, s')
      | (Inr u, s') \<Rightarrow> write_readback D p v (capture_steps D between s'))"

definition set_white_balance_temperature ::
  "'d driver \<Rightarrow> pyfloat \<Rightarrow> (nat \<times> 'd answer) list \<Rightarrow> 'd camera_manager \<Rightarrow>
     (error + prop_result) \<times> 'd camera_manager" where
  "set_white_balance_temperature D v between s = set_property D 23 v between s"

definition set_exposure ::
  "'d driver \<Rightarrow> pyfloat \<Rightarrow> (nat \<times> 'd answer) list \<Rightarrow> 'd camera_manager \<Rightarrow>
     (error + prop_result) \<times> 'd camera_manager" where
  "set_exposure D v between s = set_property D CAP_PROP_EXPOSURE v between s"

definition set_gain ::
  "'d driver \<Rightarrow> pyfloat \<Rightarrow> (nat \<times> 'd answer) list \<Rightarrow> 'd camera_manager \<Rightarrow>
     (error + prop_result) \<times> 'd camera_manager" where
  "set_gain D v between s = set_property D CAP_PROP_GAIN v between s"

definition set_focus ::
  "'d driver \<Rightarrow> pyfloat \<Rightarrow> (nat \<times> 'd answer) list \<Rightarrow> 'd camera_manager \<Rightarrow>
     (error + prop_result) \<times> 'd camera_manager" where
  "set_focus D v between s = set_property D CAP_PROP_FOCUS v between s"

definition set_zoom ::
  "'d driver \<Rightarrow> pyfloat \<Rightarrow> (nat \<times> 'd answer) list \<Rightarrow> 'd camera_manager \<Rightarrow>
     (error + prop_result) \<times> 'd camera_manager" where
  "set_zoom D v between s = set_property D CAP_PROP_ZOOM v between s"

text \<open>
  \<^verbatim>\<open>get_props\<close>: \<^verbatim>\<open>_ensure_open\<close>, then in a second locked block ten readbacks in the
  order of the dictionary.
\<close>

definition tracked_props :: "(string \<times> int) list" where
  "tracked_props =
     [(''white_balance_auto'', CAP_PROP_AUTO_WB),
      (''white_balance'', 23),
      (''auto_exposure'', CAP_PROP_AUTO_EXPOSURE),
      (''exposure'', CAP_PROP_EXPOSURE),
      (''gain'', CAP_PROP_GAIN),
      (''autofocus'', CAP_PROP_AUTOFOCUS),
      (''focus'', CAP_PROP_FOCUS),
      (''zoom'', CAP_PROP_ZOOM),
      (''width'', CAP_PROP_FRAME_WIDTH),
      (''height'', CAP_PROP_FRAME_HEIGHT)]"

definition read_all ::
  "'d driver \<Rightarrow> 'd camera_manager \<Rightarrow> (error + (string \<times> pyfloat) list) \<times> 'd camera_manager" where
  "read_all D s =
     (case cap s of
        None \<Rightarrow> (Inl (no_attribute ''NoneType'' ''get''), s)
      | Some c \<Rightarrow>
          (Inr (map (\<lambda>(name, p). (name, cap_get D c p)) tracked_props),
           called (map (\<lambda>(name, p). CapGet p) tracked_props) s))"

definition get_props ::
  "'d driver \<Rightarrow> (nat \<times> 'd answer) list \<Rightarrow> 'd camera_manager \<Rightarrow>
     (error + (string \<times> pyfloat) list) \<times> 'd camera_manager" where
  "get_props D between s =
     (case ensure_open D s of
        (Inl e, s') \<Rightarrow> (Inl e, s')
      | (Inr u, s') \<Rightarrow> read_all D (capture_steps D between s'))"

section \<open>The control channel\<close>

text \<open>
  The values that \<^verbatim>\<open>json.loads\<close> produces and \<^verbatim>\<open>send_json\<close> accepts. A dictionary is a
  list of pairs, looked up from the front.
\<close>

datatype pyval =
    PNone
  | PBool bool
  | PInt int
  | PFloat pyfloat
  | PStr string
  | PList "pyval list"
  | PDict "(string \<times> pyval) list"

text \<open>
  Python's own functions are parameters: \<^verbatim>\<open>json.loads\<close> (\<open>None\<close> for a
  \<^verbatim>\<open>JSONDecodeError\<close>), the conversions behind \<^verbatim>\<open>float()\<close> of a string (\<open>None\<close> for a
  \<^verbatim>\<open>ValueError\<close>) and of an integer (\<open>None\<close> for an \<^verbatim>\<open>OverflowError\<close>), and
  \<^verbatim>\<open>repr\<close> of a string, which the message of that \<^verbatim>\<open>ValueError\<close> shows.
\<close>

record python =
  json_loads :: "string \<Rightarrow> pyval option"
  float_of_str :: "string \<Rightarrow> pyfloat option"
  float_of_int :: "int \<Rightarrow> pyfloat option"
  repr :: "string \<Rightarrow> string"

fun type_name :: "pyval \<Rightarrow> string" where
  "type_name PNone = ''NoneType''"
| "type_name (PBool b) = ''bool''"
| "type_name (PInt i) = ''int''"
| "type_name (PFloat x) = ''float''"
| "type_name (PStr s) = ''str''"
| "type_name (PList vs) = ''list''"
| "type_name (PDict kvs) = ''dict''"

definition not_a_number :: "pyval \<Rightarrow> error" where
  "not_a_number v =
     TypeError (''float() argument must be a string or a real number, not '' @
       CHR 0x27 # type_name v @ [CHR 0x27])"

text \<open>\<^verbatim>\<open>float(value)\<close>.\<close>

fun py_float :: "python \<Rightarrow> pyval \<Rightarrow> error + pyfloat" where
  "py_float E (PFloat x) = Inr x"
| "py_float E (PBool b) = Inr (if b then Num 1 else Num 0)"
| "py_float E (PInt i) =
     (case float_of_int E i of
        None \<Rightarrow> Inl (OverflowError ''int too large to convert to float'')
      | Some x \<Rightarrow> Inr x)"
| "py_float E (PStr s) =
     (case float_of_str E s of
        None \<Rightarrow> Inl (ValueError (''could not convert string to float: '' @ repr E s))
      | Some x \<Rightarrow> Inr x)"
| "py_float E v = Inl (not_a_number v)"

text \<open>\<^verbatim>\<open>msg.get(key)\<close> on a dictionary.\<close>

definition dict_get :: "(string \<times> pyval) list \<Rightarrow> string \<Rightarrow> pyval" where
  "dict_get kvs k = (case map_of kvs k of None \<Rightarrow> PNone | Some v \<Rightarrow> v)"

text \<open>The messages that the handler sends.\<close>

definition invalid_json :: "string \<Rightarrow> pyval" where
  "invalid_json msg_text =
     PDict [(''type'', PStr ''error''), (''error'', PStr ''invalid_json''),
            (''raw'', PStr msg_text)]"

definition ack :: "string \<Rightarrow> pyval" where
  "ack action = PDict [(''type'', PStr ''ack''), (''action'', PStr action)]"

definition result_dict :: "prop_result \<Rightarrow> pyval" where
  "result_dict r =
     PDict [(''ok'', PBool (ok r)), (''requested'', PFloat (requested r)),
            (''applied'', PFloat (applied r))]"

definition ack_result :: "string \<Rightarrow> prop_result \<Rightarrow> pyval" where
  "ack_result action r =
     PDict [(''type'', PStr ''ack''), (''action'', PStr action), (''result'', result_dict r)]"

definition missing_value :: "string \<Rightarrow> pyval" where
  "missing_value name =
     PDict [(''type'', PStr ''error''), (''error'', PStr ''missing_value''),
            (''for'', PStr name)]"

definition unknown_type :: "pyval \<Rightarrow> pyval" where
  "unknown_type msg_type =
     PDict [(''type'', PStr ''error''), (''error'', PStr ''unknown_type''),
            (''msg_type'', msg_type)]"

definition exception :: "pyval \<Rightarrow> error \<Rightarrow> pyval" where
  "exception msg_type e =
     PDict [(''type'', PStr ''error''), (''error'', PStr ''exception''),
            (''msg_type'', msg_type), (''detail'', PStr (str_exc e))]"

text \<open>
  What one turn of the receive loop ends with: a message sent, after which the loop
  goes on, or an exception that leaves the loop.
\<close>

datatype outcome =
    Sent pyval
  | Raised error

text \<open>
  The five \<^verbatim>\<open>set_*\<close> branches have one shape: the value is looked up, its absence is
  answered, otherwise it is converted and handed to the setter. Both the conversion and
  the setter are inside the inner \<^verbatim>\<open>try\<close>.
\<close>

definition set_branch ::
  "python \<Rightarrow> string \<Rightarrow> (pyfloat \<Rightarrow> 'd camera_manager \<Rightarrow> (error + prop_result) \<times> 'd camera_manager) \<Rightarrow>
     (string \<times> pyval) list \<Rightarrow> 'd camera_manager \<Rightarrow> outcome \<times> 'd camera_manager" where
  "set_branch E name setter msg s =
     (let v = dict_get msg ''value'' in
      if v = PNone then (Sent (missing_value name), s)
      else
        (case py_float E v of
           Inl e \<Rightarrow> (Sent (exception (PStr name) e), s)
         | Inr x \<Rightarrow>
             (case setter x s of
                (Inl e, s') \<Rightarrow> (Sent (exception (PStr name) e), s')
              | (Inr r, s') \<Rightarrow> (Sent (ack_result name r), s'))))"

text \<open>
  The body of the loop after \<^verbatim>\<open>json.loads\<close> succeeded. \<^verbatim>\<open>msg.get("type")\<close> stands
  before the inner \<^verbatim>\<open>try\<close>: on a value that is not a dictionary its exception is caught
  by no handler of the loop. \<open>between\<close> lists the steps that the capture threads take
  while the camera call of this message is outside its locked blocks.
\<close>

definition dispatch ::
  "python \<Rightarrow> 'd driver \<Rightarrow> (nat \<times> 'd answer) list \<Rightarrow> pyval \<Rightarrow> 'd camera_manager \<Rightarrow>
     outcome \<times> 'd camera_manager" where
  "dispatch E D between m s =
     (case m of
        PDict msg \<Rightarrow>
          (let msg_type = dict_get msg ''type'' in
           if msg_type = PStr ''camera_start'' then (Sent (ack ''camera_start''), start s)
           else if msg_type = PStr ''camera_stop'' then
             (Sent (ack ''camera_stop''), stop_join D between s)
           else if msg_type = PStr ''set_white_balance_temperature'' then
             set_branch E ''set_white_balance_temperature''
               (\<lambda>x. set_white_balance_temperature D x between) msg s
           else if msg_type = PStr ''set_exposure'' then
             set_branch E ''set_exposure'' (\<lambda>x. set_exposure D x between) msg s
           else if msg_type = PStr ''set_gain'' then
             set_branch E ''set_gain'' (\<lambda>x. set_gain D x between) msg s
           else if msg_type = PStr ''set_focus'' then
             set_branch E ''set_focus'' (\<lambda>x. set_focus D x between) msg s
           else if msg_type = PStr ''set_zoom'' then
             set_branch E ''set_zoom'' (\<lambda>x. set_zoom D x between) msg s
           else (Sent (unknown_type msg_type), s))
      | other \<Rightarrow> (Raised (no_attribute (type_name other) ''get''), s))"

text \<open>
  One turn of the receive loop, for a message during whose camera call no capture thread
  takes a step.
\<close>

definition on_text ::
  "python \<Rightarrow> 'd driver \<Rightarrow> string \<Rightarrow> 'd camera_manager \<Rightarrow> outcome \<times> 'd camera_manager" where
  "on_text E D msg_text s =
     (case json_loads E msg_text of
        None \<Rightarrow> (Sent (invalid_json msg_text), print (''[WS] received:'' @ msg_text) s)
      | Some m \<Rightarrow> dispatch E D [] m (print (''[WS] received:'' @ msg_text) s))"

text \<open>
  \<^verbatim>\<open>ws_control\<close> on the texts that the client sends before it disconnects. The result
  holds the messages sent, the exception that ended the handler (if one did), and the
  state after the \<^verbatim>\<open>finally\<close> clause.
\<close>

fun receive_loop ::
  "python \<Rightarrow> 'd driver \<Rightarrow> string list \<Rightarrow> 'd camera_manager \<Rightarrow>
     pyval list \<times> error option \<times> 'd camera_manager" where
  "receive_loop E D [] s = ([], None, stop (print ''[WS] client disconnected'' s))"
| "receive_loop E D (msg_text # rest) s =
     (case on_text E D msg_text s of
        (Sent r, s') \<Rightarrow>
          (case receive_loop E D rest s' of (out, exc, s'') \<Rightarrow> (r # out, exc, s''))
      | (Raised e, s') \<Rightarrow> ([], Some e, stop s'))"

definition ws_control ::
  "python \<Rightarrow> 'd driver \<Rightarrow> string list \<Rightarrow> 'd camera_manager \<Rightarrow>
     pyval list \<times> error option \<times> 'd camera_manager" where
  "ws_control E D texts s = receive_loop E D texts (print ''[WS] client connected'' s)"

section \<open>The MJPEG endpoint\<close>

datatype http_error = HTTPException nat string

definition mjpeg :: "'d camera_manager \<Rightarrow> http_error + string" where
  "mjpeg s =
     (if \<not> running s then
        Inl (HTTPException 503 ''Camera is not started. Use WS camera_start first.'')
      else Inr ''multipart/x-mixed-replace; boundary=frame'')"

definition crlf :: bytes where
  "crlf = [CHR 0x0D, CHR 0x0A]"

definition boundary :: bytes where
  "boundary = ''--frame'' @ crlf"

definition content_type :: bytes where
  "content_type = ''Content-Type: image/jpeg'' @ crlf"

definition content_length :: "nat \<Rightarrow> bytes" where
  "content_length n = ''Content-Length: '' @ str_nat n @ crlf @ crlf"

text \<open>
  \<^verbatim>\<open>mjpeg_generator\<close>. Each turn of its loop reads \<^verbatim>\<open>running\<close> and \<^verbatim>\<open>last_frame\<close> in one
  locked block; the argument lists the states that the successive turns see. The result
  is the list of chunks yielded, and whether the generator has returned. The encoder
  \<^verbatim>\<open>cv2.imencode\<close> is a parameter, called with the extension, the frame and the list of
  encoding parameters.
\<close>

type_synonym encoder = "string \<Rightarrow> frame \<Rightarrow> (int \<times> int) list \<Rightarrow> bool \<times> bytes"

fun mjpeg_generator :: "encoder \<Rightarrow> 'd camera_manager list \<Rightarrow> bytes list \<times> bool" where
  "mjpeg_generator imencode [] = ([], False)"
| "mjpeg_generator imencode (s # ss) =
     (if \<not> running s then ([], True)
      else
        (case last_frame s of
           None \<Rightarrow> mjpeg_generator imencode ss
         | Some frame \<Rightarrow>
             (case imencode ''.jpg'' frame [(IMWRITE_JPEG_QUALITY, 100)] of
                (okv, jpg_bytes) \<Rightarrow>
                  if \<not> okv then mjpeg_generator imencode ss
                  else
                    (case mjpeg_generator imencode ss of
                       (out, fin) \<Rightarrow>
                         ([boundary, content_type, content_length (length jpg_bytes),
                           jpg_bytes, crlf] @ out, fin)))))"

section \<open>What the stream should contain\<close>

text \<open>One multipart part for an encoded image.\<close>

definition part :: "bytes \<Rightarrow> bytes list" where
  "part jpg_bytes =
     [''--frame'' @ [CHR 0x0D, CHR 0x0A],
      ''Content-Type: image/jpeg'' @ [CHR 0x0D, CHR 0x0A],
      ''Content-Length: '' @ str_nat (length jpg_bytes) @
        [CHR 0x0D, CHR 0x0A, CHR 0x0D, CHR 0x0A],
      jpg_bytes,
      [CHR 0x0D, CHR 0x0A]]"

text \<open>
  The images to be streamed: of the states seen before the first one in which capture is
  not running, the frames that are present, encoded as JPEG with quality 100, where the
  encoder succeeded.
\<close>

definition encoded_frames :: "encoder \<Rightarrow> 'd camera_manager list \<Rightarrow> bytes list" where
  "encoded_frames imencode ss =
     map snd (filter fst
       (map (\<lambda>frame. imencode ''.jpg'' frame [(IMWRITE_JPEG_QUALITY, 100)])
          (List.map_filter last_frame (takeWhile running ss))))"

section \<open>The setters by message type\<close>

text \<open>The five message types that set a property, each with the setter it is to reach.\<close>

definition setters ::
  "'d driver \<Rightarrow>
     (string \<times> (pyfloat \<Rightarrow> (nat \<times> 'd answer) list \<Rightarrow> 'd camera_manager \<Rightarrow>
        (error + prop_result) \<times> 'd camera_manager)) list" where
  "setters D =
     [(''set_white_balance_temperature'', set_white_balance_temperature D),
      (''set_exposure'', set_exposure D),
      (''set_gain'', set_gain D),
      (''set_focus'', set_focus D),
      (''set_zoom'', set_zoom D)]"

text \<open>The value of the field \<^verbatim>\<open>type\<close> of a message sent.\<close>

definition type_of :: "pyval \<Rightarrow> pyval" where
  "type_of r = (case r of PDict kvs \<Rightarrow> dict_get kvs ''type'' | other \<Rightarrow> PNone)"

section \<open>The code of a pixel format\<close>

text \<open>
  The code that a tag of four characters stands for: the four bytes, the first lowest,
  read as a signed 32-bit integer.
\<close>

definition packed :: "char \<Rightarrow> char \<Rightarrow> char \<Rightarrow> char \<Rightarrow> int" where
  "packed c1 c2 c3 c4 =
     (if of_char c1 + 256 * of_char c2 + 65536 * of_char c3 + 16777216 * of_char c4
           < (2147483648 :: int)
      then of_char c1 + 256 * of_char c2 + 65536 * of_char c3 + 16777216 * of_char c4
      else of_char c1 + 256 * of_char c2 + 65536 * of_char c3 + 16777216 * of_char c4
           - 4294967296)"

section \<open>Predicates on states\<close>





section \<open>A simulated machine\<close>

text \<open>
  One concrete driver, interpreter and encoder, on which the statements below are
  evaluated. The simulated device keeps a flag and the properties written so far. It
  refuses to write the zoom, and it limits the gain to the range from 0 to 100.
\<close>

type_synonym sim_device = "bool \<times> (int \<times> pyfloat) list"

definition sim_set :: "sim_device \<Rightarrow> int \<Rightarrow> pyfloat \<Rightarrow> bool \<times> sim_device" where
  "sim_set d p v =
     (if p = CAP_PROP_ZOOM then (False, d)
      else if p = CAP_PROP_GAIN then
        (case v of
           Num x \<Rightarrow> (True, (fst d, (p, Num (min 100 (max 0 x))) # snd d))
         | other \<Rightarrow> (False, d))
      else (True, (fst d, (p, v) # snd d)))"

definition sim_get :: "sim_device \<Rightarrow> int \<Rightarrow> pyfloat" where
  "sim_get d p = (case map_of (snd d) p of None \<Rightarrow> Num 0 | Some v \<Rightarrow> v)"

definition sim_driver :: "sim_device driver" where
  "sim_driver =
     \<lparr> isOpened = fst, cap_set = sim_set, cap_get = sim_get \<rparr>"

text \<open>A handle of a camera that is plugged in, and one of a camera that is not.\<close>

definition plugged :: sim_device where
  "plugged = (True, [])"

definition unplugged :: sim_device where
  "unplugged = (False, [])"

text \<open>The texts that the simulated \<^verbatim>\<open>json.loads\<close> knows; any other text does not parse.\<close>

definition sim_texts :: "(string \<times> pyval) list" where
  \<open>sim_texts =
     [(''{"type":"camera_start"}'', PDict [(''type'', PStr ''camera_start'')]),
      (''{"type":"camera_stop"}'', PDict [(''type'', PStr ''camera_stop'')]),
      (''{"type":"set_exposure"}'', PDict [(''type'', PStr ''set_exposure'')]),
      (''{"type":"bogus"}'', PDict [(''type'', PStr ''bogus'')]),
      (''{"type":"set_gain","value":150}'',
         PDict [(''type'', PStr ''set_gain''), (''value'', PInt 150)]),
      (''{"type":"set_gain","value":"12.5"}'',
         PDict [(''type'', PStr ''set_gain''), (''value'', PStr ''12.5'')]),
      (''{"type":"set_gain","value":"high"}'',
         PDict [(''type'', PStr ''set_gain''), (''value'', PStr ''high'')]),
      (''{"type":"set_gain","value":null}'',
         PDict [(''type'', PStr ''set_gain''), (''value'', PNone)]),
      (''[]'', PList []),
      (''7'', PInt 7)]\<close>

definition sim_python :: python where
  "sim_python =
     \<lparr> json_loads = map_of sim_texts,
       float_of_str = map_of [(''12.5'', Num 12.5), (''7'', Num 7), (''nan'', NaN)],
       float_of_int = (\<lambda>i. Some (Num (real_of_int i))),
       repr = (\<lambda>s. CHR 0x27 # s @ [CHR 0x27]) \<rparr>"

text \<open>The simulated encoder fails on an empty frame and otherwise returns one byte per pixel.\<close>

definition sim_imencode :: encoder where
  "sim_imencode ext frm params = (frm \<noteq> [], map char_of frm)"

text \<open>
  The manager of \<^verbatim>\<open>main.py\<close> on the simulated device after \<^verbatim>\<open>start\<close>, a successful
  open, and one frame read and published: capture is running and a frame is present.
\<close>

definition sim_streaming :: "sim_device camera_manager" where
  "sim_streaming =
     \<lparr> cap = Some (True, [(CAP_PROP_AUTOFOCUS, Num 0), (CAP_PROP_AUTO_WB, Num 0),
                         (CAP_PROP_AUTO_EXPOSURE, Num 1), (CAP_PROP_FRAME_HEIGHT, Num 1080),
                         (CAP_PROP_FRAME_WIDTH, Num 1920),
                         (CAP_PROP_FOURCC, Num 1448695129)]),
       running = True, last_frame = Some [1, 2, 3], thread = Some 0,
       device_index = 0, width = 1920, height = 1080, prefer_backend = CAP_V4L2,
       fourcc = ''YUYV'', threads = [P_Loop], joining = False,
       calls = [VideoCapture 0 CAP_V4L2, IsOpened, CapSet CAP_PROP_FOURCC (Num 1448695129),
                CapSet CAP_PROP_FRAME_WIDTH (Num 1920), CapSet CAP_PROP_FRAME_HEIGHT (Num 1080),
                CapSet CAP_PROP_AUTO_EXPOSURE (Num 1), CapSet CAP_PROP_AUTO_WB (Num 0),
                CapSet CAP_PROP_AUTOFOCUS (Num 0), CapRead],
       stdout = [''[CAM] capture started''] \<rparr>"

text \<open>
  The same manager after a stop whose join timed out while the capture thread was inside
  \<^verbatim>\<open>read()\<close>, and a second \<^verbatim>\<open>start\<close> whose thread has opened the camera and stored its
  handle: the first thread has seen the cleared flag and stands before its final locked
  block.
\<close>

definition sim_restarted :: "sim_device camera_manager" where
  "sim_restarted =
     \<lparr> cap = Some (True, [(CAP_PROP_AUTOFOCUS, Num 0), (CAP_PROP_AUTO_WB, Num 0),
                         (CAP_PROP_AUTO_EXPOSURE, Num 1), (CAP_PROP_FRAME_HEIGHT, Num 1080),
                         (CAP_PROP_FRAME_WIDTH, Num 1920),
                         (CAP_PROP_FOURCC, Num 1448695129)]),
       running = True, last_frame = None, thread = Some 1,
       device_index = 0, width = 1920, height = 1080, prefer_backend = CAP_V4L2,
       fourcc = ''YUYV'', threads = [P_Stopping, P_Loop], joining = False,
       calls = [VideoCapture 0 CAP_V4L2, IsOpened, CapSet CAP_PROP_FOURCC (Num 1448695129),
                CapSet CAP_PROP_FRAME_WIDTH (Num 1920), CapSet CAP_PROP_FRAME_HEIGHT (Num 1080),
                CapSet CAP_PROP_AUTO_EXPOSURE (Num 1), CapSet CAP_PROP_AUTO_WB (Num 0),
                CapSet CAP_PROP_AUTOFOCUS (Num 0), CapRelease, CapRead,
                VideoCapture 0 CAP_V4L2, IsOpened, CapSet CAP_PROP_FOURCC (Num 1448695129),
                CapSet CAP_PROP_FRAME_WIDTH (Num 1920), CapSet CAP_PROP_FRAME_HEIGHT (Num 1080),
                CapSet CAP_PROP_AUTO_EXPOSURE (Num 1), CapSet CAP_PROP_AUTO_WB (Num 0),
                CapSet CAP_PROP_AUTOFOCUS (Num 0)],
       stdout = [''[CAM] capture started'', ''[CAM] capture started''] \<rparr>"

section \<open>Properties of the device session\<close>

lemmas setter_defs = set_white_balance_temperature_def set_exposure_def set_gain_def
  set_focus_def set_zoom_def

lemma capture_steps_Nil: "capture_steps D [] s = s"
  by (simp add: capture_steps_def)

lemma ensure_open_closed:
  assumes "\<not> is_open D s"
  shows "ensure_open D s =
     (Inl NotOpenError, s\<lparr>calls := calls s @ (if cap s = None then [] else [IsOpened])\<rparr>)"
  using assms by (auto simp add: is_open_def ensure_open_def called_def split: option.splits)

lemma ensure_open_open:
  assumes "is_open D s"
  shows "ensure_open D s = (Inr (), called [IsOpened] s)"
  using assms by (auto simp add: is_open_def ensure_open_def split: option.splits)

lemma write_readback_present:
  assumes "cap s = Some c"
  shows "write_readback D p v s =
     (Inr (readback_result D c p v),
      called [CapSet p v, CapGet p] (s\<lparr>cap := Some (snd (cap_set D c p v))\<rparr>))"
  using assms
  by (simp add: write_readback_def called_def readback_result_def split: prod.splits)

lemma write_readback_cleared:
  assumes "cap s = None"
  shows "write_readback D p v s =
     (Inl (AttributeError (CHR 0x27 # ''NoneType' object has no attribute 'set'' @ [CHR 0x27])), s)"
  using assms by (simp add: write_readback_def no_attribute_def)

lemma set_property_closed:
  assumes "\<not> is_open D s"
  shows "set_property D p v between s =
     (Inl NotOpenError, s\<lparr>calls := calls s @ (if cap s = None then [] else [IsOpened])\<rparr>)"
  by (simp add: set_property_def ensure_open_closed [OF assms])

lemma set_property_checked:
  assumes "is_open D s"
  shows "set_property D p v between s =
     write_readback D p v (capture_steps D between (called [IsOpened] s))"
  by (simp add: set_property_def ensure_open_open [OF assms])

lemma get_props_closed:
  assumes "\<not> is_open D s"
  shows "get_props D between s =
     (Inl NotOpenError, s\<lparr>calls := calls s @ (if cap s = None then [] else [IsOpened])\<rparr>)"
  by (simp add: get_props_def ensure_open_closed [OF assms])

lemma get_props_checked:
  assumes "is_open D s"
  shows "get_props D between s = read_all D (capture_steps D between (called [IsOpened] s))"
  by (simp add: get_props_def ensure_open_open [OF assms])

text \<open>
  A setter whose handle is still there when its second locked block runs: it returns the
  value passed in as \<open>requested\<close>, the driver's answer to the write as \<open>ok\<close>, and as
  \<open>applied\<close> what the driver reads back for the same property from the handle as the
  write left it. Write and readback are consecutive calls on the driver, and a refused
  write is reported as \<open>ok = False\<close>.
\<close>

lemma set_property_result:
  assumes "is_open D s" and "cap (capture_steps D between (called [IsOpened] s)) = Some c"
  shows "set_property D p v between s =
     (Inr \<lparr>ok = fst (cap_set D c p v), requested = v,
           applied = cap_get D (snd (cap_set D c p v)) p\<rparr>,
      called [CapSet p v, CapGet p]
        ((capture_steps D between (called [IsOpened] s))
           \<lparr>cap := Some (snd (cap_set D c p v))\<rparr>))"
  by (simp only: set_property_checked [OF assms(1)] write_readback_present [OF assms(2)]
      readback_result_def)

lemma setter_result:
  assumes "is_open D s" and "cap (capture_steps D between (called [IsOpened] s)) = Some c"
  shows "set_white_balance_temperature D v between s = set_property D 23 v between s
       \<and> set_exposure D v between s = set_property D CAP_PROP_EXPOSURE v between s
       \<and> set_gain D v between s = set_property D CAP_PROP_GAIN v between s
       \<and> set_focus D v between s = set_property D CAP_PROP_FOCUS v between s
       \<and> set_zoom D v between s = set_property D CAP_PROP_ZOOM v between s
       \<and> set_property D p v between s =
           (Inr \<lparr>ok = fst (cap_set D c p v), requested = v,
                 applied = cap_get D (snd (cap_set D c p v)) p\<rparr>,
            called [CapSet p v, CapGet p]
              ((capture_steps D between (called [IsOpened] s))
                 \<lparr>cap := Some (snd (cap_set D c p v))\<rparr>))"
  by (simp only: setter_defs set_property_result [OF assms] simp_thms)

text \<open>
  A setter whose handle was cleared between its two locked blocks: the attribute access
  on \<^verbatim>\<open>None\<close> raises, although \<^verbatim>\<open>_ensure_open\<close> had found the session open.
\<close>

lemma set_property_cleared:
  assumes "is_open D s" and "cap (capture_steps D between (called [IsOpened] s)) = None"
  shows "set_property D p v between s =
     (Inl (AttributeError (CHR 0x27 # ''NoneType' object has no attribute 'set'' @ [CHR 0x27])),
      capture_steps D between (called [IsOpened] s))"
  by (simp only: set_property_checked [OF assms(1)] write_readback_cleared [OF assms(2)])

lemma writes_closed:
  "writes (calls (s\<lparr>calls := calls s @ (if cap s = None then [] else [IsOpened])\<rparr>)) =
   writes (calls s)"
  by (simp add: writes_def)

text \<open>
  While the session is closed (no handle, or a handle that the driver reports as not
  opened) each of the five setters and \<^verbatim>\<open>get_props\<close> ends with the exception of
  \<^verbatim>\<open>_ensure_open\<close>; the state changes by at most the recorded call of \<^verbatim>\<open>isOpened\<close>, so the
  history of driver calls gains no write.
\<close>

lemma closed_session_raises:
  assumes "\<not> is_open D s"
  shows "set_white_balance_temperature D v between s =
           (Inl (RuntimeError ''Camera is not started/opened''),
            s\<lparr>calls := calls s @ (if cap s = None then [] else [IsOpened])\<rparr>)
       \<and> set_exposure D v between s =
           (Inl (RuntimeError ''Camera is not started/opened''),
            s\<lparr>calls := calls s @ (if cap s = None then [] else [IsOpened])\<rparr>)
       \<and> set_gain D v between s =
           (Inl (RuntimeError ''Camera is not started/opened''),
            s\<lparr>calls := calls s @ (if cap s = None then [] else [IsOpened])\<rparr>)
       \<and> set_focus D v between s =
           (Inl (RuntimeError ''Camera is not started/opened''),
            s\<lparr>calls := calls s @ (if cap s = None then [] else [IsOpened])\<rparr>)
       \<and> set_zoom D v between s =
           (Inl (RuntimeError ''Camera is not started/opened''),
            s\<lparr>calls := calls s @ (if cap s = None then [] else [IsOpened])\<rparr>)
       \<and> get_props D between s =
           (Inl (RuntimeError ''Camera is not started/opened''),
            s\<lparr>calls := calls s @ (if cap s = None then [] else [IsOpened])\<rparr>)
       \<and> writes (calls (s\<lparr>calls := calls s @ (if cap s = None then [] else [IsOpened])\<rparr>)) =
           writes (calls s)"
  by (simp only: setter_defs set_property_closed [OF assms] get_props_closed [OF assms]
      writes_closed simp_thms)

lemma open_camera_unopened:
  assumes "\<not> isOpened D h"
  shows "open_camera D h s =
     (Inl (RuntimeError (''Cannot open camera index='' @ str_int (device_index s))),
      called [VideoCapture (device_index s) (prefer_backend s), IsOpened, CapRelease] s)"
  using assms by (simp add: open_camera_def called_def)

lemma open_camera_format:
  assumes "isOpened D h" and "fourcc s \<noteq> []" and "VideoWriter_fourcc (fourcc s) = Inr code"
  shows "open_camera D h s =
     (Inr (foldl (\<lambda>c (p, v). snd (cap_set D c p v)) h (settings s (Some code))),
      called (VideoCapture (device_index s) (prefer_backend s) # IsOpened #
              map (\<lambda>(p, v). CapSet p v) (settings s (Some code))) s)"
  using assms by (simp add: open_camera_def called_def apply_set_def settings_def)


lemma open_camera_bad_format:
  assumes "isOpened D h" and "fourcc s \<noteq> []" and "VideoWriter_fourcc (fourcc s) = Inl e"
  shows "open_camera D h s =
     (Inl e, called [VideoCapture (device_index s) (prefer_backend s), IsOpened] s)"
  using assms by (simp add: open_camera_def called_def)

lemma VideoWriter_fourcc_packed:
  "VideoWriter_fourcc [c1, c2, c3, c4] = Inr (packed c1 c2 c3 c4)"
  by (simp add: VideoWriter_fourcc_def packed_def int32_def Let_def)

text \<open>
  Claim C9. Whenever \<^verbatim>\<open>_open_camera\<close> returns a handle for a manager whose pixel format is
  a tag of four characters, it has made exactly these calls on that handle, in this order
  and whatever the driver answered: the write of the packed code of the tag to the pixel
  format, of the width, of the height, of 1 to the auto-exposure flag (enabled), of 0 to
  the automatic white balance (disabled) and of 0 to the autofocus (disabled).
\<close>

theorem open_camera_applies_settings:
  assumes "open_camera D h s = (Inr c, s')" and "fourcc s = [c1, c2, c3, c4]"
  shows "c = foldl (\<lambda>c (p, v). snd (cap_set D c p v)) h
           [(CAP_PROP_FOURCC, Num (real_of_int (packed c1 c2 c3 c4))),
            (CAP_PROP_FRAME_WIDTH, Num (real_of_int (width s))),
            (CAP_PROP_FRAME_HEIGHT, Num (real_of_int (height s))),
            (CAP_PROP_AUTO_EXPOSURE, Num 1), (CAP_PROP_AUTO_WB, Num 0),
            (CAP_PROP_AUTOFOCUS, Num 0)]
     \<and> calls s' = calls s @
           [VideoCapture (device_index s) (prefer_backend s), IsOpened,
            CapSet CAP_PROP_FOURCC (Num (real_of_int (packed c1 c2 c3 c4))),
            CapSet CAP_PROP_FRAME_WIDTH (Num (real_of_int (width s))),
            CapSet CAP_PROP_FRAME_HEIGHT (Num (real_of_int (height s))),
            CapSet CAP_PROP_AUTO_EXPOSURE (Num 1), CapSet CAP_PROP_AUTO_WB (Num 0),
            CapSet CAP_PROP_AUTOFOCUS (Num 0)]
     \<and> isOpened D h"
proof (cases "isOpened D h")
  case False
  with assms show ?thesis by (simp add: open_camera_unopened)
next
  case True
  from assms(2) have f: "fourcc s \<noteq> []" by simp
  from assms(2) have v: "VideoWriter_fourcc (fourcc s) = Inr (packed c1 c2 c3 c4)"
    by (simp only: VideoWriter_fourcc_packed)
  from assms(1) True show ?thesis
    by (auto simp add: open_camera_format [OF True f v] settings_def called_def)
qed

text \<open>
  On the simulated device, for the manager of \<^verbatim>\<open>main.py\<close>: the tag \<^verbatim>\<open>YUYV\<close> is packed to
  1448695129, and the size is 1920 by 1080.
\<close>

theorem open_camera_applies_settings_witness:
  "fst (open_camera sim_driver plugged (camera :: sim_device camera_manager)) =
     Inr (True, [(CAP_PROP_AUTOFOCUS, Num 0), (CAP_PROP_AUTO_WB, Num 0),
                 (CAP_PROP_AUTO_EXPOSURE, Num 1), (CAP_PROP_FRAME_HEIGHT, Num 1080),
                 (CAP_PROP_FRAME_WIDTH, Num 1920), (CAP_PROP_FOURCC, Num 1448695129)])
   \<and> calls (snd (open_camera sim_driver plugged (camera :: sim_device camera_manager))) =
       [VideoCapture 0 200, IsOpened, CapSet 6 (Num 1448695129),
        CapSet 3 (Num 1920), CapSet 4 (Num 1080),
        CapSet 21 (Num 1), CapSet 44 (Num 0), CapSet 39 (Num 0)]"
proof -
  let ?s = "camera :: sim_device camera_manager"
  have p: "isOpened sim_driver plugged" by (simp add: sim_driver_def plugged_def)
  have f: "fourcc ?s = [CHR ''Y'', CHR ''U'', CHR ''Y'', CHR ''V'']"
    by (simp add: camera_def init_def)
  have k: "packed CHR ''Y'' CHR ''U'' CHR ''Y'' CHR ''V'' = 1448695129"
    by (simp add: packed_def)
  from f have n: "fourcc ?s \<noteq> []" by simp
  from f have v: "VideoWriter_fourcc (fourcc ?s) = Inr (packed CHR ''Y'' CHR ''U'' CHR ''Y'' CHR ''V'')"
    by (simp only: VideoWriter_fourcc_packed)
  obtain c s' where o: "open_camera sim_driver plugged ?s = (Inr c, s')"
    by (simp add: open_camera_format [OF p n v])
  from open_camera_applies_settings [OF o f]
  have a: "c = foldl (\<lambda>c (p, v). snd (cap_set sim_driver c p v)) plugged
           [(CAP_PROP_FOURCC, Num (real_of_int (packed CHR ''Y'' CHR ''U'' CHR ''Y'' CHR ''V''))),
            (CAP_PROP_FRAME_WIDTH, Num (real_of_int (width ?s))),
            (CAP_PROP_FRAME_HEIGHT, Num (real_of_int (height ?s))),
            (CAP_PROP_AUTO_EXPOSURE, Num 1), (CAP_PROP_AUTO_WB, Num 0),
            (CAP_PROP_AUTOFOCUS, Num 0)]"
    and b: "calls s' = calls ?s @
           [VideoCapture (device_index ?s) (prefer_backend ?s), IsOpened,
            CapSet CAP_PROP_FOURCC (Num (real_of_int (packed CHR ''Y'' CHR ''U'' CHR ''Y'' CHR ''V''))),
            CapSet CAP_PROP_FRAME_WIDTH (Num (real_of_int (width ?s))),
            CapSet CAP_PROP_FRAME_HEIGHT (Num (real_of_int (height ?s))),
            CapSet CAP_PROP_AUTO_EXPOSURE (Num 1), CapSet CAP_PROP_AUTO_WB (Num 0),
            CapSet CAP_PROP_AUTOFOCUS (Num 0)]"
    by blast+
  have w1: "fst (open_camera sim_driver plugged ?s) =
     Inr (True, [(CAP_PROP_AUTOFOCUS, Num 0), (CAP_PROP_AUTO_WB, Num 0),
                 (CAP_PROP_AUTO_EXPOSURE, Num 1), (CAP_PROP_FRAME_HEIGHT, Num 1080),
                 (CAP_PROP_FRAME_WIDTH, Num 1920), (CAP_PROP_FOURCC, Num 1448695129)])"
    by (simp only: o fst_conv a k)
      (simp add: camera_def init_def sim_driver_def sim_set_def plugged_def)
  have w2: "calls (snd (open_camera sim_driver plugged ?s)) =
       [VideoCapture 0 200, IsOpened, CapSet 6 (Num 1448695129),
        CapSet 3 (Num 1920), CapSet 4 (Num 1080),
        CapSet 21 (Num 1), CapSet 44 (Num 0), CapSet 39 (Num 0)]"
    by (simp only: o snd_conv b k) (simp add: camera_def init_def)
  show ?thesis by (rule conjI w1 w2)+
qed

section \<open>Properties of the threads\<close>

lemma open_camera_called: "\<exists>cs. snd (open_camera D h s) = called cs s"
proof (cases "isOpened D h")
  case False
  then show ?thesis by (auto simp add: open_camera_def called_def intro!: exI)
next
  case True
  note o = this
  show ?thesis
  proof (cases "fourcc s = []")
    case True
    with o show ?thesis
      by (simp add: open_camera_def called_def apply_set_def) (rule exI, rule refl)
  next
    case False
    note f = this
    show ?thesis
    proof (cases "VideoWriter_fourcc (fourcc s)")
      case (Inl e)
      with o f show ?thesis 
        by (simp add: open_camera_def called_def) (rule exI, rule refl)
    next
      case (Inr code)
      with o f show ?thesis
        by (simp add: open_camera_def called_def apply_set_def) (rule exI, rule refl)
    qed
  qed
qed

lemma called_fields [simp]:
  "running (called cs s) = running s" "cap (called cs s) = cap s"
  "last_frame (called cs s) = last_frame s" "threads (called cs s) = threads s"
  "joining (called cs s) = joining s" "fourcc (called cs s) = fourcc s"
  "stdout (called cs s) = stdout s" "calls (called cs s) = calls s @ cs"
  by (simp_all add: called_def)

lemma print_fields [simp]:
  "running (print l s) = running s" "cap (print l s) = cap s"
  "last_frame (print l s) = last_frame s" "threads (print l s) = threads s"
  "joining (print l s) = joining s" "fourcc (print l s) = fourcc s"
  "calls (print l s) = calls s" "stdout (print l s) = stdout s @ [l]"
  by (simp_all add: print_def)

lemma set_pc_fields [simp]:
  "running (set_pc i p s) = running s" "cap (set_pc i p s) = cap s"
  "last_frame (set_pc i p s) = last_frame s" "threads (set_pc i p s) = (threads s)[i := p]"
  "joining (set_pc i p s) = joining s" "fourcc (set_pc i p s) = fourcc s"
  "calls (set_pc i p s) = calls s" "stdout (set_pc i p s) = stdout s"
  by (simp_all add: set_pc_def)

lemma open_camera_fields [simp]:
  "running (snd (open_camera D h s)) = running s"
  "cap (snd (open_camera D h s)) = cap s"
  "last_frame (snd (open_camera D h s)) = last_frame s"
  "threads (snd (open_camera D h s)) = threads s"
  "joining (snd (open_camera D h s)) = joining s"
  "fourcc (snd (open_camera D h s)) = fourcc s"
  "stdout (snd (open_camera D h s)) = stdout s"
  using open_camera_called [of D h s] by auto





lemma stop_lock2_fields [simp]:
  "running (stop_lock2 s) = running s" "cap (stop_lock2 s) = None"
  "last_frame (stop_lock2 s) = None" "threads (stop_lock2 s) = threads s"
  "joining (stop_lock2 s) = joining s" "fourcc (stop_lock2 s) = fourcc s"
  by (simp_all add: stop_lock2_def split: option.splits)












section \<open>The lifecycle\<close>







text \<open>
  A capture thread that was inside \<^verbatim>\<open>read()\<close> while \<^verbatim>\<open>stop\<close> ran and returned (the join
  timed out) still publishes the frame it read: the frame is back after \<^verbatim>\<open>stop\<close> until
  the thread reaches the head of its loop.
\<close>

lemma frame_after_stop:
  "run sim_driver
     [Producer 0 Tau, StopBegin, StopEnd, Producer 0 (ReadResult True (Some [4, 5, 6])),
      Producer 0 Tau] sim_streaming
   = Some (sim_streaming\<lparr>cap := None, running := False, last_frame := Some [4, 5, 6],
             calls := calls sim_streaming @ [CapRelease, CapRead]\<rparr>)"
  by code_simp




lemma dict_get_Some: "map_of msg k = Some v \<Longrightarrow> dict_get msg k = v"
  by (simp add: dict_get_def)

lemma dispatch_camera_start:
  "map_of msg ''type'' = Some (PStr ''camera_start'') \<Longrightarrow>
   dispatch E D between (PDict msg) s =
     (Sent (PDict [(''type'', PStr ''ack''), (''action'', PStr ''camera_start'')]), start s)"
  by (simp add: dispatch_def dict_get_Some ack_def)

lemma step_open_raises:
  assumes "i < length (threads s)" and "threads s ! i = P_Init"
    and "fst (open_camera D h s) = Inl e"
  shows "step D (Producer i (NewHandle h)) s =
    Some (set_pc i (P_OpenFailed e) (snd (open_camera D h s)))"
  using assms by (cases "open_camera D h s") simp

lemma step_open_failed:
  assumes "i < length (threads s)" and "threads s ! i = P_OpenFailed e"
  shows "step D (Producer i Tau) s =
    Some (set_pc i P_Done (print (''[CAM] open failed: '' @ str_exc e)
            (s\<lparr>running := False, cap := None, last_frame := None\<rparr>)))"
  using assms by simp

lemma run_two: "run D [e1, e2] s = Option.bind (step D e1 s) (step D e2)"
  by (simp split: option.splits)

lemma run_open_failure:
  assumes "i < length (threads s)" and "threads s ! i = P_Init"
    and "fst (open_camera D h s) = Inl e"
  shows "run D [Producer i (NewHandle h), Producer i Tau] s =
    Some (set_pc i P_Done (print (''[CAM] open failed: '' @ str_exc e)
        ((set_pc i (P_OpenFailed e) (snd (open_camera D h s)))
           \<lparr>running := False, cap := None, last_frame := None\<rparr>)))"
proof -
  let ?s1 = "set_pc i (P_OpenFailed e) (snd (open_camera D h s))"
  have s1: "step D (Producer i (NewHandle h)) s = Some ?s1"
    using assms by (rule step_open_raises)
  from assms have i1: "i < length (threads ?s1)" "threads ?s1 ! i = P_OpenFailed e" by simp_all
  show ?thesis
    by (simp only: run_two s1 Option.bind.simps step_open_failed [OF i1])
qed

text \<open>
  Claim C8. A \<^verbatim>\<open>camera_start\<close> message is answered with the message of type \<^verbatim>\<open>ack\<close> and
  action \<^verbatim>\<open>camera_start\<close> in every state and whatever the capture threads do meanwhile,
  and the handler does nothing but \<^verbatim>\<open>start\<close>: nothing of the open reaches it. A
  handle that is not opened makes \<^verbatim>\<open>_open_camera\<close> raise; when the open raises, the
  capture thread's next step is its last: it leaves \<^verbatim>\<open>running\<close> false and \<^verbatim>\<open>cap\<close> and
  \<^verbatim>\<open>last_frame\<close> null, prints the failure, and returns.
\<close>

theorem camera_start_acknowledged:
  "(map_of msg ''type'' = Some (PStr ''camera_start'') \<longrightarrow>
      dispatch E D between (PDict msg) s =
        (Sent (PDict [(''type'', PStr ''ack''), (''action'', PStr ''camera_start'')]), start s))
 \<and> (\<not> isOpened D h \<longrightarrow>
      fst (open_camera D h s) =
        Inl (RuntimeError (''Cannot open camera index='' @ str_int (device_index s))))
 \<and> (i < length (threads s) \<and> threads s ! i = P_Init \<and> fst (open_camera D h s) = Inl e
      \<and> run D [Producer i (NewHandle h), Producer i Tau] s = Some s' \<longrightarrow>
      \<not> running s' \<and> cap s' = None \<and> last_frame s' = None \<and> threads s' ! i = P_Done
      \<and> stdout s' = stdout s @ [''[CAM] open failed: '' @ str_exc e])
 \<and> (i < length (threads s) \<and> threads s ! i = P_Init \<and> fst (open_camera D h s) = Inl e \<longrightarrow>
      run D [Producer i (NewHandle h), Producer i Tau] s \<noteq> None)"
proof (intro conjI impI)
  assume "map_of msg ''type'' = Some (PStr ''camera_start'')"
  then show "dispatch E D between (PDict msg) s =
      (Sent (PDict [(''type'', PStr ''ack''), (''action'', PStr ''camera_start'')]), start s)"
    by (rule dispatch_camera_start)
next
  assume "\<not> isOpened D h"
  then show "fst (open_camera D h s) =
      Inl (RuntimeError (''Cannot open camera index='' @ str_int (device_index s)))"
    by (simp add: open_camera_unopened)
next
  assume a: "i < length (threads s) \<and> threads s ! i = P_Init \<and> fst (open_camera D h s) = Inl e
      \<and> run D [Producer i (NewHandle h), Producer i Tau] s = Some s'"
  let ?s1 = "set_pc i (P_OpenFailed e) (snd (open_camera D h s))"
  let ?s2 = "set_pc i P_Done (print (''[CAM] open failed: '' @ str_exc e)
        (?s1\<lparr>running := False, cap := None, last_frame := None\<rparr>))"
  from a have i0: "i < length (threads s)" "threads s ! i = P_Init"
    "fst (open_camera D h s) = Inl e" by blast+
  from a have r: "run D [Producer i (NewHandle h), Producer i Tau] s = Some s'" by blast
  from i0 have "run D [Producer i (NewHandle h), Producer i Tau] s = Some ?s2"
    by (rule run_open_failure)
  with r have s': "s' = ?s2" by (simp only: option.inject)
  from i0 show "\<not> running s'" "cap s' = None" "last_frame s' = None" "threads s' ! i = P_Done"
    "stdout s' = stdout s @ [''[CAM] open failed: '' @ str_exc e]"
    by (simp_all add: s')
next
  assume a: "i < length (threads s) \<and> threads s ! i = P_Init \<and> fst (open_camera D h s) = Inl e"
  then have i0: "i < length (threads s)" "threads s ! i = P_Init"
    "fst (open_camera D h s) = Inl e" by blast+
  from run_open_failure [OF i0]
  show "run D [Producer i (NewHandle h), Producer i Tau] s \<noteq> None" by (simp only:) simp
qed


text \<open>On the simulated device with the camera unplugged.\<close>

theorem camera_start_acknowledged_witness:
  "dispatch sim_python sim_driver [] (PDict [(''type'', PStr ''camera_start'')]) camera =
     (Sent (PDict [(''type'', PStr ''ack''), (''action'', PStr ''camera_start'')]),
      start camera)
   \<and> \<not> isOpened sim_driver unplugged
   \<and> threads (start (camera :: sim_device camera_manager)) ! 0 = P_Init
   \<and> running (start (camera :: sim_device camera_manager))
   \<and> run sim_driver [Producer 0 (NewHandle unplugged), Producer 0 Tau] (start camera) =
       Some (camera\<lparr>thread := Some 0, threads := [P_Done],
             calls := [VideoCapture 0 CAP_V4L2, IsOpened, CapRelease],
             stdout := [''[CAM] open failed: Cannot open camera index=0'']\<rparr>)
   \<and> \<not> running (camera\<lparr>thread := Some 0, threads := [P_Done],
             calls := [VideoCapture 0 CAP_V4L2, IsOpened, CapRelease],
             stdout := [''[CAM] open failed: Cannot open camera index=0'']\<rparr>
           :: sim_device camera_manager)"
proof -
  let ?s = "start (camera :: sim_device camera_manager)"
  let ?s' = "camera\<lparr>thread := Some 0, threads := [P_Done],
             calls := [VideoCapture 0 CAP_V4L2, IsOpened, CapRelease],
             stdout := [''[CAM] open failed: Cannot open camera index=0'']\<rparr>
             :: sim_device camera_manager"
  let ?e = "RuntimeError ''Cannot open camera index=0''"
  have t: "map_of [(''type'', PStr ''camera_start'')] ''type'' = Some (PStr ''camera_start'')"
    by simp
  have u: "\<not> isOpened sim_driver unplugged" by (simp add: sim_driver_def unplugged_def)
  have i1: "0 < length (threads ?s)" by (simp add: start_def camera_def init_def)
  have i2: "threads ?s ! 0 = P_Init" by (simp add: start_def camera_def init_def)
  have i3: "running ?s" by (simp add: start_def camera_def init_def)
  have f: "fst (open_camera sim_driver unplugged ?s) = Inl ?e" by code_simp
  have r: "run sim_driver [Producer 0 (NewHandle unplugged), Producer 0 Tau] ?s = Some ?s'"
    by code_simp
  have w1: "dispatch sim_python sim_driver [] (PDict [(''type'', PStr ''camera_start'')]) camera =
     (Sent (PDict [(''type'', PStr ''ack''), (''action'', PStr ''camera_start'')]),
      start camera)"
    using camera_start_acknowledged [THEN conjunct1, THEN mp, OF t] .
  have w3: "\<not> running ?s' \<and> cap ?s' = None \<and> last_frame ?s' = None \<and> threads ?s' ! 0 = P_Done
      \<and> stdout ?s' = stdout ?s @ [''[CAM] open failed: '' @ str_exc ?e]"
    using camera_start_acknowledged [THEN conjunct2, THEN conjunct2, THEN conjunct1, THEN mp,
        OF conjI [OF i1 conjI [OF i2 conjI [OF f r]]]] .
  from w3 have w4: "\<not> running ?s'" by (rule conjunct1)
  show ?thesis by (rule conjI w1 u i2 i3 r w4)+
qed

section \<open>The session across a restart\<close>

text \<open>
  From a state in which nothing runs, \<^verbatim>\<open>start\<close> followed by the new thread's successful
  open and its storing of the handle leaves the session with that handle: it is open when
  the driver reports the handle as opened.
\<close>

lemma start_open_store:
  assumes "\<not> running s" and "\<not> joining s"
    and "fst (open_camera D h (start s)) = Inr c"
  shows "\<exists>s'. run D [Start, Producer (length (threads s)) (NewHandle h),
                     Producer (length (threads s)) Tau] s = Some s'
           \<and> cap s' = Some c \<and> running s' \<and> is_open D s' = isOpened D c"
proof -
  let ?i = "length (threads s)"
  let ?s0 = "start s"
  obtain s1 where o: "open_camera D h ?s0 = (Inr c, s1)"
    using assms(3) by (cases "open_camera D h ?s0") simp
  from o have s1: "s1 = snd (open_camera D h ?s0)" by simp
  from assms(1) have t0: "threads ?s0 = threads s @ [P_Init]" "running ?s0"
    by (simp_all add: start_def)
  from assms(2) have a: "step D Start s = Some ?s0" by simp
  from t0 o have b: "step D (Producer ?i (NewHandle h)) ?s0 = Some (set_pc ?i (P_Opened c) s1)"
    by simp
  from t0 have t1: "threads (set_pc ?i (P_Opened c) s1) = threads s @ [P_Opened c]"
    by (simp add: s1)
  let ?s2 = "set_pc ?i P_Loop
      (print ''[CAM] capture started'' ((set_pc ?i (P_Opened c) s1)\<lparr>cap := Some c\<rparr>))"
  from t1 have d: "step D (Producer ?i Tau) (set_pc ?i (P_Opened c) s1) = Some ?s2"
    by simp
  have r: "run D [Start, Producer ?i (NewHandle h), Producer ?i Tau] s = Some ?s2"
    by (simp only: run.simps a b d option.case)
  from t0 have "cap ?s2 = Some c" "running ?s2" by (simp_all add: s1)
  moreover from this have "is_open D ?s2 = isOpened D c" by (simp add: is_open_def)
  ultimately show ?thesis using r by blast
qed

lemma sim_restarted_reached:
  "run sim_driver
     [Start, Producer 0 (NewHandle plugged), Producer 0 Tau, Producer 0 Tau,
      StopBegin, StopEnd, Producer 0 (ReadResult False None), Producer 0 Tau,
      Start, Producer 1 (NewHandle plugged), Producer 1 Tau] camera
   = Some sim_restarted"
  by code_simp

text \<open>
  Claim C2 on a setter that is called while the session is open and raises. The camera
  was started; \<^verbatim>\<open>stop\<close> ran while the capture thread was inside \<^verbatim>\<open>read()\<close> and its join
  timed out; the read failed and the thread saw the cleared flag; the camera was started
  again and the second thread opened it and stored its handle. The session is open and
  \<^verbatim>\<open>_ensure_open\<close> passes. Before the setter takes the lock again, the first thread runs its
  final locked block, which releases and clears \<^verbatim>\<open>self.cap\<close>: the write is an attribute
  access on \<^verbatim>\<open>None\<close>, and the call ends with an \<^verbatim>\<open>AttributeError\<close> instead of a result.
\<close>

theorem setter_raises_after_check:
  "run sim_driver
     [Start, Producer 0 (NewHandle plugged), Producer 0 Tau, Producer 0 Tau,
      StopBegin, StopEnd, Producer 0 (ReadResult False None), Producer 0 Tau,
      Start, Producer 1 (NewHandle plugged), Producer 1 Tau] camera
   = Some sim_restarted
   \<and> is_open sim_driver sim_restarted
   \<and> fst (ensure_open sim_driver sim_restarted) = Inr ()
   \<and> set_gain sim_driver (Num 5) [(0, Tau)] sim_restarted =
       (Inl (AttributeError (CHR 0x27 # ''NoneType' object has no attribute 'set'' @ [CHR 0x27])),
        sim_restarted\<lparr>cap := None, threads := [P_Done, P_Loop],
          calls := calls sim_restarted @ [IsOpened, CapRelease],
          stdout := stdout sim_restarted @ [''[CAM] capture stopping'']\<rparr>)
   \<and> set_gain sim_driver (Num 5) [] sim_restarted =
       (Inr \<lparr>ok = True, requested = Num 5, applied = Num 5\<rparr>,
        sim_restarted\<lparr>cap := Some (True, (CAP_PROP_GAIN, Num 5) # snd (the (cap sim_restarted))),
          calls := calls sim_restarted @
            [IsOpened, CapSet CAP_PROP_GAIN (Num 5), CapGet CAP_PROP_GAIN]\<rparr>)"
  by code_simp

text \<open>
  Claim C3 on a setter that is called after a \<^verbatim>\<open>camera_start\<close> whose open completed and
  fails as on a closed session. In the same run, the first thread's final locked block
  comes after the second thread has stored its handle: it releases and clears that
  handle. Capture is running, every open succeeded and \<^verbatim>\<open>start\<close> was the last command, but
  the session is closed and the setters and \<^verbatim>\<open>get_props\<close> raise the exception of
  \<^verbatim>\<open>_ensure_open\<close>.
\<close>

theorem restart_closes_session:
  "run sim_driver
     [Start, Producer 0 (NewHandle plugged), Producer 0 Tau, Producer 0 Tau,
      StopBegin, StopEnd, Producer 0 (ReadResult False None), Producer 0 Tau,
      Start, Producer 1 (NewHandle plugged), Producer 1 Tau, Producer 0 Tau] camera
   = Some (sim_restarted\<lparr>cap := None, threads := [P_Done, P_Loop],
             calls := calls sim_restarted @ [CapRelease],
             stdout := stdout sim_restarted @ [''[CAM] capture stopping'']\<rparr>)
   \<and> running (sim_restarted\<lparr>cap := None, threads := [P_Done, P_Loop],
             calls := calls sim_restarted @ [CapRelease],
             stdout := stdout sim_restarted @ [''[CAM] capture stopping'']\<rparr>)
   \<and> fst (set_gain sim_driver (Num 5) []
        (sim_restarted\<lparr>cap := None, threads := [P_Done, P_Loop],
             calls := calls sim_restarted @ [CapRelease],
             stdout := stdout sim_restarted @ [''[CAM] capture stopping'']\<rparr>)) =
       Inl (RuntimeError ''Camera is not started/opened'')
   \<and> fst (get_props sim_driver []
        (sim_restarted\<lparr>cap := None, threads := [P_Done, P_Loop],
             calls := calls sim_restarted @ [CapRelease],
             stdout := stdout sim_restarted @ [''[CAM] capture stopping'']\<rparr>)) =
       Inl (RuntimeError ''Camera is not started/opened'')"
  by code_simp

section \<open>Properties of the stream\<close>

lemma digit_val_digit_char: "d < 10 \<Longrightarrow> digit_val (digit_char d) = d"
  by (simp add: digit_val_def digit_char_def)

lemma nat_of_digits_snoc: "nat_of_digits (cs @ [c]) = 10 * nat_of_digits cs + digit_val c"
  by (simp add: nat_of_digits_def)

lemma nat_of_digits_str_nat: "nat_of_digits (str_nat n) = n"
proof (induction n rule: str_nat.induct)
  case (1 n)
  show ?case
  proof (cases "n < 10")
    case True
    then show ?thesis
      by (simp add: str_nat.simps [of n] nat_of_digits_def digit_val_digit_char)
  next
    case False
    with 1 have "nat_of_digits (str_nat (n div 10)) = n div 10" by simp
    with False show ?thesis
      by (simp add: str_nat.simps [of n] nat_of_digits_snoc digit_val_digit_char)
  qed
qed

lemma digit_chars: "map digit_char [0, 1, 2, 3, 4, 5, 6, 7, 8, 9] = ''0123456789''"
  by code_simp

lemma digit_char_is_digit:
  assumes "d < 10"
  shows "digit_char d \<in> set ''0123456789''"
proof -
  from assms have "d \<in> set [0, 1, 2, 3, 4, 5, 6, 7, 8, 9]" by auto
  then have "digit_char d \<in> set (map digit_char [0, 1, 2, 3, 4, 5, 6, 7, 8, 9])"
    by (simp only: set_map) (rule imageI)
  then show ?thesis by (simp only: digit_chars)
qed

lemma str_nat_digits: "c \<in> set (str_nat n) \<Longrightarrow> c \<in> set ''0123456789''"
proof (induction n rule: str_nat.induct)
  case (1 n)
  show ?case
  proof (cases "n < 10")
    case True
    with "1.prems" have "c = digit_char n" by (simp add: str_nat.simps [of n])
    with True digit_char_is_digit show ?thesis by blast
  next
    case False
    with "1.prems" have "c \<in> set (str_nat (n div 10)) \<or> c = digit_char (n mod 10)"
      by (auto simp add: str_nat.simps [of n])
    then show ?thesis
    proof
      assume "c \<in> set (str_nat (n div 10))"
      with "1.IH" False show ?thesis by blast
    next
      assume "c = digit_char (n mod 10)"
      moreover have "n mod 10 < 10" by simp
      ultimately show ?thesis using digit_char_is_digit by blast
    qed
  qed
qed

lemma encoded_frames_Nil: "encoded_frames imencode [] = []"
  by (simp add: encoded_frames_def List.map_filter_simps)

lemma encoded_frames_Cons:
  "encoded_frames imencode (s # ss) =
     (if \<not> running s then []
      else (case last_frame s of
              None \<Rightarrow> encoded_frames imencode ss
            | Some frame \<Rightarrow>
                (if fst (imencode ''.jpg'' frame [(IMWRITE_JPEG_QUALITY, 100)])
                 then snd (imencode ''.jpg'' frame [(IMWRITE_JPEG_QUALITY, 100)]) #
                      encoded_frames imencode ss
                 else encoded_frames imencode ss)))"
  by (simp add: encoded_frames_def List.map_filter_simps split: option.splits)

lemma mjpeg_generator_parts:
  "fst (mjpeg_generator imencode ss) = concat (map part (encoded_frames imencode ss))"
proof (induction ss)
  case Nil
  show ?case by (simp add: encoded_frames_Nil)
next
  case (Cons s ss)
  show ?case
  proof (cases "running s")
    case False
    then show ?thesis by (simp add: encoded_frames_Cons)
  next
    case True
    note r = this
    show ?thesis
    proof (cases "last_frame s")
      case None
      with r Cons show ?thesis by (simp add: encoded_frames_Cons)
    next
      case (Some frm)
      obtain okv jpg where e: "imencode ''.jpg'' frm [(IMWRITE_JPEG_QUALITY, 100)] = (okv, jpg)"
        by (cases "imencode ''.jpg'' frm [(IMWRITE_JPEG_QUALITY, 100)]")
      obtain out fin where g: "mjpeg_generator imencode ss = (out, fin)"
        by (cases "mjpeg_generator imencode ss")
      from Cons g have o: "out = concat (map part (encoded_frames imencode ss))" by simp
      have p: "[boundary, content_type, content_length (length jpg), jpg, crlf] = part jpg"
        by (simp add: part_def boundary_def content_type_def content_length_def crlf_def)
      from r Some e g o show ?thesis
        by (simp add: encoded_frames_Cons del: append.simps) (simp add: p)
    qed
  qed
qed

lemma mjpeg_generator_running:
  "list_all running ss \<Longrightarrow> snd (mjpeg_generator imencode ss) = False"
  by (induction ss) (auto split: option.splits prod.splits)

lemma mjpeg_generator_stops:
  "list_all running ss \<Longrightarrow> \<not> running s \<Longrightarrow>
   mjpeg_generator imencode (ss @ s # rest) = (fst (mjpeg_generator imencode ss), True)"
  by (induction ss) (auto split: option.splits prod.splits)


text \<open>
  Claim C6. The chunks that the generator yields are, image by image, the five chunks of
  one part: the boundary marker of the boundary \<^verbatim>\<open>frame\<close>, the header
  \<^verbatim>\<open>Content-Type: image/jpeg\<close>, the header \<^verbatim>\<open>Content-Length\<close> followed by a blank line, the
  bytes that the encoder returned for the frame at quality 100, and a line end; every
  line ends with a carriage return and a line feed. The
  number in the length header is written in decimal digits and denotes exactly the number
  of bytes of the image.
\<close>

theorem multipart_parts:
  "fst (mjpeg_generator imencode ss) = concat (map part (encoded_frames imencode ss))
 \<and> part jpg_bytes =
     [''--frame'' @ [CHR 0x0D, CHR 0x0A],
      ''Content-Type: image/jpeg'' @ [CHR 0x0D, CHR 0x0A],
      ''Content-Length: '' @ str_nat (length jpg_bytes) @
        [CHR 0x0D, CHR 0x0A, CHR 0x0D, CHR 0x0A],
      jpg_bytes,
      [CHR 0x0D, CHR 0x0A]]
 \<and> nat_of_digits (str_nat (length jpg_bytes)) = length jpg_bytes
 \<and> (\<forall>c \<in> set (str_nat (length jpg_bytes)). c \<in> set ''0123456789'')"
  by (simp only: mjpeg_generator_parts nat_of_digits_str_nat part_def simp_thms)
    (blast intro: str_nat_digits)

text \<open>
  A stream over five states: no frame yet, a frame of twelve pixels, a frame that does
  not encode, capture stopped, and a state that is never looked at.
\<close>

theorem multipart_parts_witness:
  "mjpeg_generator sim_imencode
     [sim_streaming\<lparr>last_frame := None\<rparr>,
      sim_streaming\<lparr>last_frame := Some [65, 66, 67, 68, 69, 70, 71, 72, 73, 74, 75, 76]\<rparr>,
      sim_streaming\<lparr>last_frame := Some []\<rparr>,
      sim_streaming\<lparr>running := False\<rparr>,
      sim_streaming]
   = ([''--frame'' @ [CHR 0x0D, CHR 0x0A],
       ''Content-Type: image/jpeg'' @ [CHR 0x0D, CHR 0x0A],
       ''Content-Length: 12'' @ [CHR 0x0D, CHR 0x0A, CHR 0x0D, CHR 0x0A],
       ''ABCDEFGHIJKL'',
       [CHR 0x0D, CHR 0x0A]], True)
   \<and> str_nat (length ''ABCDEFGHIJKL'') = ''12''
   \<and> nat_of_digits (str_nat (length ''ABCDEFGHIJKL'')) = length ''ABCDEFGHIJKL''"
proof -
  have g: "mjpeg_generator sim_imencode
     [sim_streaming\<lparr>last_frame := None\<rparr>,
      sim_streaming\<lparr>last_frame := Some [65, 66, 67, 68, 69, 70, 71, 72, 73, 74, 75, 76]\<rparr>,
      sim_streaming\<lparr>last_frame := Some []\<rparr>,
      sim_streaming\<lparr>running := False\<rparr>,
      sim_streaming]
   = ([''--frame'' @ [CHR 0x0D, CHR 0x0A],
       ''Content-Type: image/jpeg'' @ [CHR 0x0D, CHR 0x0A],
       ''Content-Length: 12'' @ [CHR 0x0D, CHR 0x0A, CHR 0x0D, CHR 0x0A],
       ''ABCDEFGHIJKL'',
       [CHR 0x0D, CHR 0x0A]], True)"
    by code_simp
  have n: "str_nat (length ''ABCDEFGHIJKL'') = ''12''" by code_simp
  note m = multipart_parts [where jpg_bytes = "''ABCDEFGHIJKL''" and imencode = sim_imencode
      and ss = "[] :: sim_device camera_manager list"]
  from m have d: "nat_of_digits (str_nat (length ''ABCDEFGHIJKL'')) = length ''ABCDEFGHIJKL''"
    by (elim conjE)
  show ?thesis by (rule conjI g n d)+
qed

text \<open>
  Claim C7. While capture is not running the endpoint answers with status 503 and the
  text that the camera is not started, and no generator is created. A generator returns
  in the first turn that sees \<^verbatim>\<open>running\<close> false, having yielded only what the turns before
  yielded, whatever comes after; as long as every turn sees \<^verbatim>\<open>running\<close> true it does not
  return.
\<close>

theorem stream_bound_to_running:
  "(\<not> running s \<longrightarrow>
      mjpeg s = Inl (HTTPException 503 ''Camera is not started. Use WS camera_start first.''))
 \<and> (running s \<longrightarrow> mjpeg s = Inr ''multipart/x-mixed-replace; boundary=frame'')
 \<and> (list_all running ss \<and> \<not> running s \<longrightarrow>
      mjpeg_generator imencode (ss @ s # rest) = (fst (mjpeg_generator imencode ss), True))
 \<and> (list_all running ss \<longrightarrow> snd (mjpeg_generator imencode ss) = False)"
  by (simp add: mjpeg_def mjpeg_generator_stops mjpeg_generator_running)

text \<open>On the new manager, and on the streaming one that is then stopped.\<close>

theorem stream_bound_to_running_witness:
  "mjpeg (camera :: sim_device camera_manager) =
     Inl (HTTPException 503 ''Camera is not started. Use WS camera_start first.'')
   \<and> mjpeg sim_streaming = Inr ''multipart/x-mixed-replace; boundary=frame''
   \<and> mjpeg_generator sim_imencode
       ([sim_streaming, sim_streaming] @ sim_streaming\<lparr>running := False\<rparr> # [sim_streaming])
     = (fst (mjpeg_generator sim_imencode [sim_streaming, sim_streaming]), True)
   \<and> snd (mjpeg_generator sim_imencode [sim_streaming, sim_streaming]) = False"
proof -
  have a: "\<not> running (camera :: sim_device camera_manager)" by (simp add: camera_def init_def)
  have b: "running sim_streaming" by (simp add: sim_streaming_def)
  have c: "list_all running [sim_streaming, sim_streaming]
      \<and> \<not> running (sim_streaming\<lparr>running := False\<rparr>)"
    by (simp add: sim_streaming_def)
  from c have c': "list_all running [sim_streaming, sim_streaming]" by (rule conjunct1)
  have w1: "mjpeg (camera :: sim_device camera_manager) =
     Inl (HTTPException 503 ''Camera is not started. Use WS camera_start first.'')"
    using stream_bound_to_running [THEN conjunct1, THEN mp, OF a] .
  have w2: "mjpeg sim_streaming = Inr ''multipart/x-mixed-replace; boundary=frame''"
    using stream_bound_to_running [THEN conjunct2, THEN conjunct1, THEN mp, OF b] .
  have w3: "mjpeg_generator sim_imencode
       ([sim_streaming, sim_streaming] @ sim_streaming\<lparr>running := False\<rparr> # [sim_streaming])
     = (fst (mjpeg_generator sim_imencode [sim_streaming, sim_streaming]), True)"
    using stream_bound_to_running [THEN conjunct2, THEN conjunct2, THEN conjunct1, THEN mp, OF c] .
  have w4: "snd (mjpeg_generator sim_imencode [sim_streaming, sim_streaming]) = False"
    using stream_bound_to_running [THEN conjunct2, THEN conjunct2, THEN conjunct2, THEN mp, OF c'] .
  show ?thesis by (rule conjI w1 w2 w3 w4)+
qed

section \<open>Properties of the control channel\<close>

lemma dispatch_setter:
  assumes "(name, setter) \<in> set (setters D)" and "map_of msg ''type'' = Some (PStr name)"
  shows "dispatch E D between (PDict msg) s =
     set_branch E name (\<lambda>x. setter x between) msg s"
proof -
  from assms(2) have "dict_get msg ''type'' = PStr name" by (rule dict_get_Some)
  with assms(1) show ?thesis by (auto simp add: setters_def dispatch_def)
qed

lemma set_branch_missing:
  assumes "map_of msg ''value'' = None \<or> map_of msg ''value'' = Some PNone"
  shows "set_branch E name setter msg s =
     (Sent (PDict [(''type'', PStr ''error''), (''error'', PStr ''missing_value''),
                   (''for'', PStr name)]), s)"
  using assms by (auto simp add: set_branch_def dict_get_def missing_value_def)

lemma set_branch_not_float:
  assumes "map_of msg ''value'' = Some v" and "v \<noteq> PNone" and "py_float E v = Inl e"
  shows "set_branch E name setter msg s =
     (Sent (PDict [(''type'', PStr ''error''), (''error'', PStr ''exception''),
                   (''msg_type'', PStr name), (''detail'', PStr (str_exc e))]), s)"
  using assms by (simp add: set_branch_def dict_get_def exception_def)

lemma set_branch_float:
  assumes "map_of msg ''value'' = Some v" and "v \<noteq> PNone" and "py_float E v = Inr x"
  shows "set_branch E name setter msg s =
     (case setter x s of
        (Inl e, s') \<Rightarrow>
          (Sent (PDict [(''type'', PStr ''error''), (''error'', PStr ''exception''),
                        (''msg_type'', PStr name), (''detail'', PStr (str_exc e))]), s')
      | (Inr r, s') \<Rightarrow>
          (Sent (PDict [(''type'', PStr ''ack''), (''action'', PStr name),
                        (''result'', PDict [(''ok'', PBool (ok r)),
                                            (''requested'', PFloat (requested r)),
                                            (''applied'', PFloat (applied r))])]), s'))"
  using assms
  by (simp add: set_branch_def dict_get_def exception_def ack_result_def result_dict_def
      split: prod.splits sum.splits)

text \<open>
  Claim C10, as amended. For each of the five \<^verbatim>\<open>set_*\<close> message types: when the value
  field is present and not null but \<^verbatim>\<open>float()\<close> raises on it, the answer is the error
  \<^verbatim>\<open>exception\<close> with the message type and the text of that exception, and the state, with
  its history of driver calls, is unchanged; when \<^verbatim>\<open>float()\<close> converts it, the converted
  number is handed to the setter of that type, and the answer is the acknowledgement with
  the setter's result, or, if the setter raises, the error \<^verbatim>\<open>exception\<close>. A value that is
  absent or null is answered with the error \<^verbatim>\<open>missing_value\<close> and the state is unchanged.
  A string is converted exactly when \<^verbatim>\<open>float()\<close> accepts its text.
\<close>

theorem unconvertible_value:
  "((name, setter) \<in> set (setters D) \<and> map_of msg ''type'' = Some (PStr name)
      \<and> map_of msg ''value'' = Some v \<and> v \<noteq> PNone \<and> py_float E v = Inl e \<longrightarrow>
      dispatch E D between (PDict msg) s =
        (Sent (PDict [(''type'', PStr ''error''), (''error'', PStr ''exception''),
                      (''msg_type'', PStr name), (''detail'', PStr (str_exc e))]), s))
 \<and> ((name, setter) \<in> set (setters D) \<and> map_of msg ''type'' = Some (PStr name)
      \<and> map_of msg ''value'' = Some v \<and> v \<noteq> PNone \<and> py_float E v = Inr x \<longrightarrow>
      dispatch E D between (PDict msg) s =
        (case setter x between s of
           (Inl e, s') \<Rightarrow>
             (Sent (PDict [(''type'', PStr ''error''), (''error'', PStr ''exception''),
                           (''msg_type'', PStr name), (''detail'', PStr (str_exc e))]), s')
         | (Inr r, s') \<Rightarrow>
             (Sent (PDict [(''type'', PStr ''ack''), (''action'', PStr name),
                           (''result'', PDict [(''ok'', PBool (ok r)),
                                               (''requested'', PFloat (requested r)),
                                               (''applied'', PFloat (applied r))])]), s')))
 \<and> ((name, setter) \<in> set (setters D) \<and> map_of msg ''type'' = Some (PStr name)
      \<and> (map_of msg ''value'' = None \<or> map_of msg ''value'' = Some PNone) \<longrightarrow>
      dispatch E D between (PDict msg) s =
        (Sent (PDict [(''type'', PStr ''error''), (''error'', PStr ''missing_value''),
                      (''for'', PStr name)]), s))
 \<and> (float_of_str E txt = Some x \<longrightarrow> py_float E (PStr txt) = Inr x)
 \<and> (float_of_str E txt = None \<longrightarrow>
      py_float E (PStr txt) =
        Inl (ValueError (''could not convert string to float: '' @ repr E txt)))"
proof (intro conjI impI)
  assume "(name, setter) \<in> set (setters D) \<and> map_of msg ''type'' = Some (PStr name)
      \<and> map_of msg ''value'' = Some v \<and> v \<noteq> PNone \<and> py_float E v = Inl e"
  then have a: "(name, setter) \<in> set (setters D)" "map_of msg ''type'' = Some (PStr name)"
    and b: "map_of msg ''value'' = Some v" "v \<noteq> PNone" "py_float E v = Inl e"
    by blast+
  show "dispatch E D between (PDict msg) s =
        (Sent (PDict [(''type'', PStr ''error''), (''error'', PStr ''exception''),
                      (''msg_type'', PStr name), (''detail'', PStr (str_exc e))]), s)"
    by (simp only: dispatch_setter [OF a] set_branch_not_float [OF b])
next
  assume "(name, setter) \<in> set (setters D) \<and> map_of msg ''type'' = Some (PStr name)
      \<and> map_of msg ''value'' = Some v \<and> v \<noteq> PNone \<and> py_float E v = Inr x"
  then have a: "(name, setter) \<in> set (setters D)" "map_of msg ''type'' = Some (PStr name)"
    and b: "map_of msg ''value'' = Some v" "v \<noteq> PNone" "py_float E v = Inr x"
    by blast+
  show "dispatch E D between (PDict msg) s =
        (case setter x between s of
           (Inl e, s') \<Rightarrow>
             (Sent (PDict [(''type'', PStr ''error''), (''error'', PStr ''exception''),
                           (''msg_type'', PStr name), (''detail'', PStr (str_exc e))]), s')
         | (Inr r, s') \<Rightarrow>
             (Sent (PDict [(''type'', PStr ''ack''), (''action'', PStr name),
                           (''result'', PDict [(''ok'', PBool (ok r)),
                                               (''requested'', PFloat (requested r)),
                                               (''applied'', PFloat (applied r))])]), s'))"
    by (simp only: dispatch_setter [OF a] set_branch_float [OF b])
next
  assume "(name, setter) \<in> set (setters D) \<and> map_of msg ''type'' = Some (PStr name)
      \<and> (map_of msg ''value'' = None \<or> map_of msg ''value'' = Some PNone)"
  then have a: "(name, setter) \<in> set (setters D)" "map_of msg ''type'' = Some (PStr name)"
    and b: "map_of msg ''value'' = None \<or> map_of msg ''value'' = Some PNone"
    by blast+
  show "dispatch E D between (PDict msg) s =
        (Sent (PDict [(''type'', PStr ''error''), (''error'', PStr ''missing_value''),
                      (''for'', PStr name)]), s)"
    by (simp only: dispatch_setter [OF a] set_branch_missing [OF b])
next
  assume "float_of_str E txt = Some x"
  then show "py_float E (PStr txt) = Inr x" by simp
next
  assume "float_of_str E txt = None"
  then show "py_float E (PStr txt) =
      Inl (ValueError (''could not convert string to float: '' @ repr E txt))" by simp
qed

text \<open>
  Claim C10 as stated fails: a value field that is present and holds \<^verbatim>\<open>null\<close> is not
  convertible to a float, and it is reported as \<^verbatim>\<open>missing_value\<close>.
\<close>

theorem null_value_is_missing:
  \<open>json_loads sim_python ''{"type":"set_gain","value":null}'' =
     Some (PDict [(''type'', PStr ''set_gain''), (''value'', PNone)])
   \<and> map_of [(''type'', PStr ''set_gain''), (''value'', PNone)] ''value'' = Some PNone
   \<and> py_float sim_python PNone =
       Inl (TypeError (''float() argument must be a string or a real number, not 'NoneType'' @
              [CHR 0x27]))
   \<and> on_text sim_python sim_driver ''{"type":"set_gain","value":null}'' sim_streaming =
       (Sent (PDict [(''type'', PStr ''error''), (''error'', PStr ''missing_value''),
                     (''for'', PStr ''set_gain'')]),
        sim_streaming\<lparr>stdout := stdout sim_streaming @
          [''[WS] received:{"type":"set_gain","value":null}'']\<rparr>)\<close>
  by code_simp

text \<open>
  A gain of \<^verbatim>\<open>"high"\<close>, of \<^verbatim>\<open>"12.5"\<close> and of \<^verbatim>\<open>null\<close> on the streaming manager, with no step
  of the capture thread inside the call.
\<close>

theorem unconvertible_value_witness:
  "dispatch sim_python sim_driver []
      (PDict [(''type'', PStr ''set_gain''), (''value'', PStr ''high'')]) sim_streaming =
     (Sent (PDict [(''type'', PStr ''error''), (''error'', PStr ''exception''),
                   (''msg_type'', PStr ''set_gain''),
                   (''detail'', PStr (''could not convert string to float: 'high'' @
                                       [CHR 0x27]))]),
      sim_streaming)
   \<and> dispatch sim_python sim_driver []
      (PDict [(''type'', PStr ''set_gain''), (''value'', PStr ''12.5'')]) sim_streaming =
     (Sent (PDict [(''type'', PStr ''ack''), (''action'', PStr ''set_gain''),
                   (''result'', PDict [(''ok'', PBool True),
                                       (''requested'', PFloat (Num 12.5)),
                                       (''applied'', PFloat (Num 12.5))])]),
      sim_streaming\<lparr>cap := Some (True, (CAP_PROP_GAIN, Num 12.5) # snd (the (cap sim_streaming))),
        calls := calls sim_streaming @
          [IsOpened, CapSet CAP_PROP_GAIN (Num 12.5), CapGet CAP_PROP_GAIN]\<rparr>)
   \<and> dispatch sim_python sim_driver []
      (PDict [(''type'', PStr ''set_gain''), (''value'', PNone)]) sim_streaming =
     (Sent (PDict [(''type'', PStr ''error''), (''error'', PStr ''missing_value''),
                   (''for'', PStr ''set_gain'')]),
      sim_streaming)"
proof -
  let ?bad = "[(''type'', PStr ''set_gain''), (''value'', PStr ''high'')]"
  let ?good = "[(''type'', PStr ''set_gain''), (''value'', PStr ''12.5'')]"
  let ?null = "[(''type'', PStr ''set_gain''), (''value'', PNone)]"
  let ?e = "ValueError (''could not convert string to float: 'high'' @ [CHR 0x27])"
  have m: "(''set_gain'', set_gain sim_driver) \<in> set (setters sim_driver)"
    by (simp add: setters_def)
  have b: "map_of ?bad ''type'' = Some (PStr ''set_gain'')"
    "map_of ?bad ''value'' = Some (PStr ''high'')" "PStr ''high'' \<noteq> PNone"
    "py_float sim_python (PStr ''high'') = Inl ?e"
    by (simp_all add: sim_python_def)
  have g: "map_of ?good ''type'' = Some (PStr ''set_gain'')"
    "map_of ?good ''value'' = Some (PStr ''12.5'')" "PStr ''12.5'' \<noteq> PNone"
    "py_float sim_python (PStr ''12.5'') = Inr (Num 12.5)"
    by (simp_all add: sim_python_def)
  have n: "map_of ?null ''type'' = Some (PStr ''set_gain'')"
    "map_of ?null ''value'' = None \<or> map_of ?null ''value'' = Some PNone"
    by simp_all
  have d: "str_exc ?e = ''could not convert string to float: 'high'' @ [CHR 0x27]"
    by simp
  have w1: "dispatch sim_python sim_driver [] (PDict ?bad) sim_streaming =
      (Sent (PDict [(''type'', PStr ''error''), (''error'', PStr ''exception''),
                    (''msg_type'', PStr ''set_gain''), (''detail'', PStr (str_exc ?e))]),
       sim_streaming)"
    using unconvertible_value [THEN conjunct1, THEN mp,
        OF conjI [OF m conjI [OF b(1) conjI [OF b(2) conjI [OF b(3) b(4)]]]]] .
  have w2: "dispatch sim_python sim_driver [] (PDict ?good) sim_streaming =
      (case set_gain sim_driver (Num 12.5) [] sim_streaming of
         (Inl e, s') \<Rightarrow>
           (Sent (PDict [(''type'', PStr ''error''), (''error'', PStr ''exception''),
                         (''msg_type'', PStr ''set_gain''), (''detail'', PStr (str_exc e))]), s')
       | (Inr r, s') \<Rightarrow>
           (Sent (PDict [(''type'', PStr ''ack''), (''action'', PStr ''set_gain''),
                         (''result'', PDict [(''ok'', PBool (ok r)),
                                             (''requested'', PFloat (requested r)),
                                             (''applied'', PFloat (applied r))])]), s'))"
    using unconvertible_value [THEN conjunct2, THEN conjunct1, THEN mp,
        OF conjI [OF m conjI [OF g(1) conjI [OF g(2) conjI [OF g(3) g(4)]]]]] .
  have s: "set_gain sim_driver (Num 12.5) [] sim_streaming =
      (Inr \<lparr>ok = True, requested = Num 12.5, applied = Num 12.5\<rparr>,
       sim_streaming\<lparr>cap := Some (True, (CAP_PROP_GAIN, Num 12.5) # snd (the (cap sim_streaming))),
         calls := calls sim_streaming @
           [IsOpened, CapSet CAP_PROP_GAIN (Num 12.5), CapGet CAP_PROP_GAIN]\<rparr>)"
    by code_simp
  have w3: "dispatch sim_python sim_driver [] (PDict ?good) sim_streaming =
     (Sent (PDict [(''type'', PStr ''ack''), (''action'', PStr ''set_gain''),
                   (''result'', PDict [(''ok'', PBool True),
                                       (''requested'', PFloat (Num 12.5)),
                                       (''applied'', PFloat (Num 12.5))])]),
      sim_streaming\<lparr>cap := Some (True, (CAP_PROP_GAIN, Num 12.5) # snd (the (cap sim_streaming))),
        calls := calls sim_streaming @
          [IsOpened, CapSet CAP_PROP_GAIN (Num 12.5), CapGet CAP_PROP_GAIN]\<rparr>)"
    by (simp only: w2 s prod.case sum.case prop_result.simps)
  have w5: "dispatch sim_python sim_driver [] (PDict ?null) sim_streaming =
      (Sent (PDict [(''type'', PStr ''error''), (''error'', PStr ''missing_value''),
                    (''for'', PStr ''set_gain'')]),
       sim_streaming)"
    using unconvertible_value [THEN conjunct2, THEN conjunct2, THEN conjunct1, THEN mp,
        OF conjI [OF m conjI [OF n(1) n(2)]]] .
  from w1 d have w1': "dispatch sim_python sim_driver [] (PDict ?bad) sim_streaming =
      (Sent (PDict [(''type'', PStr ''error''), (''error'', PStr ''exception''),
                    (''msg_type'', PStr ''set_gain''),
                    (''detail'', PStr (''could not convert string to float: 'high'' @
                                        [CHR 0x27]))]),
       sim_streaming)"
    by (simp only:)
  show ?thesis by (rule conjI w1' w3 w5)+
qed

subsection \<open>One message, one answer\<close>

text \<open>
  A text that does not parse is answered with \<^verbatim>\<open>invalid_json\<close>; a text that parses to a
  dictionary is answered with one message of type \<^verbatim>\<open>ack\<close> or \<^verbatim>\<open>error\<close>; a text that
  parses to anything else is not answered.
\<close>

lemma on_text_invalid_json:
  "json_loads E msg_text = None \<Longrightarrow>
   on_text E D msg_text s =
     (Sent (invalid_json msg_text), print (''[WS] received:'' @ msg_text) s)"
  by (simp add: on_text_def)

lemma on_text_not_dict:
  assumes "json_loads E msg_text = Some m" and "\<forall>msg. m \<noteq> PDict msg"
  shows "on_text E D msg_text s =
     (Raised (no_attribute (type_name m) ''get''), print (''[WS] received:'' @ msg_text) s)"
proof -
  have "dispatch E D [] m s' = (Raised (no_attribute (type_name m) ''get''), s')" for s'
  proof (cases m)
    case (PDict msg)
    with assms(2) show ?thesis by blast
  qed (simp_all add: dispatch_def)
  with assms(1) show ?thesis by (simp add: on_text_def)
qed

lemma set_branch_sends:
  "\<exists>r s'. set_branch E name setter msg s = (Sent r, s')
     \<and> (type_of r = PStr ''ack'' \<or> type_of r = PStr ''error'')"
proof (cases "dict_get msg ''value'' = PNone")
  case True
  then show ?thesis
    by (simp add: set_branch_def missing_value_def type_of_def dict_get_def)
next
  case False
  note v = this
  show ?thesis
  proof (cases "py_float E (dict_get msg ''value'')")
    case (Inl e)
    with v show ?thesis
      by (simp add: set_branch_def exception_def type_of_def dict_get_def)
  next
    case (Inr x)
    obtain res s' where s: "setter x s = (res, s')" by (cases "setter x s")
    from v Inr s show ?thesis
      by (cases res)
        (simp_all add: set_branch_def exception_def ack_result_def type_of_def dict_get_def)
  qed
qed

lemma dispatch_dict_sends:
  "\<exists>r s'. dispatch E D between (PDict msg) s = (Sent r, s')
     \<and> (type_of r = PStr ''ack'' \<or> type_of r = PStr ''error'')"
proof -
  have t: "type_of (ack a) = PStr ''ack''" "type_of (unknown_type v) = PStr ''error''" for a v
    by (simp_all add: ack_def unknown_type_def type_of_def dict_get_def)
  let ?ty = "dict_get msg ''type''"
  consider (start) "?ty = PStr ''camera_start''" | (stop) "?ty = PStr ''camera_stop''"
    | (set_wb) "?ty = PStr ''set_white_balance_temperature''"
    | (set_exposure) "?ty = PStr ''set_exposure''"
    | (set_gain) "?ty = PStr ''set_gain''"
    | (set_focus) "?ty = PStr ''set_focus''"
    | (set_zoom) "?ty = PStr ''set_zoom''"
    | (unknown) "?ty \<notin> PStr ` {''camera_start'', ''camera_stop'',
      ''set_white_balance_temperature'', ''set_exposure'', ''set_gain'', ''set_focus'',
      ''set_zoom''}"
    by auto
  then show ?thesis
  proof cases
    case start
    then show ?thesis by (simp add: dispatch_def t)
  next
    case stop
    then show ?thesis by (simp add: dispatch_def t)
  next
    case set_wb
    then have e: "dispatch E D between (PDict msg) s =
        set_branch E ''set_white_balance_temperature'' (\<lambda>x. set_white_balance_temperature D x between) msg s"
      by (simp add: dispatch_def)
    show ?thesis unfolding e by (rule set_branch_sends)
  next
    case set_exposure
    then have e: "dispatch E D between (PDict msg) s =
        set_branch E ''set_exposure'' (\<lambda>x. set_exposure D x between) msg s"
      by (simp add: dispatch_def)
    show ?thesis unfolding e by (rule set_branch_sends)
  next
    case set_gain
    then have e: "dispatch E D between (PDict msg) s =
        set_branch E ''set_gain'' (\<lambda>x. set_gain D x between) msg s"
      by (simp add: dispatch_def)
    show ?thesis unfolding e by (rule set_branch_sends)
  next
    case set_focus
    then have e: "dispatch E D between (PDict msg) s =
        set_branch E ''set_focus'' (\<lambda>x. set_focus D x between) msg s"
      by (simp add: dispatch_def)
    show ?thesis unfolding e by (rule set_branch_sends)
  next
    case set_zoom
    then have e: "dispatch E D between (PDict msg) s =
        set_branch E ''set_zoom'' (\<lambda>x. set_zoom D x between) msg s"
      by (simp add: dispatch_def)
    show ?thesis unfolding e by (rule set_branch_sends)
  next
    case unknown
    then show ?thesis by (simp add: dispatch_def t)
  qed
qed

lemma dispatch_unknown_type:
  assumes "dict_get msg ''type'' \<notin> PStr ` {''camera_start'', ''camera_stop'',
      ''set_white_balance_temperature'', ''set_exposure'', ''set_gain'', ''set_focus'',
      ''set_zoom''}"
  shows "dispatch E D between (PDict msg) s =
     (Sent (PDict [(''type'', PStr ''error''), (''error'', PStr ''unknown_type''),
                   (''msg_type'', dict_get msg ''type'')]), s)"
  using assms by (simp add: dispatch_def unknown_type_def)

text \<open>
  Claim C4 on the text \<^verbatim>\<open>[]\<close>, which is valid JSON and not an object: \<^verbatim>\<open>msg.get\<close> raises
  outside the inner \<^verbatim>\<open>try\<close>, so no answer is sent, the text that follows is never read, and
  the \<^verbatim>\<open>finally\<close> clause stops the camera. A text that is not JSON is answered and the
  loop goes on.
\<close>

theorem non_object_message_ends_handler:
  \<open>json_loads sim_python ''[]'' = Some (PList [])
   \<and> on_text sim_python sim_driver ''[]'' sim_streaming =
       (Raised (no_attribute ''list'' ''get''), print ''[WS] received:[]'' sim_streaming)
   \<and> ws_control sim_python sim_driver [''[]'', ''{"type":"bogus"}''] sim_streaming =
       ([], Some (no_attribute ''list'' ''get''),
        stop (print ''[WS] received:[]'' (print ''[WS] client connected'' sim_streaming)))
   \<and> \<not> running (stop (print ''[WS] received:[]''
        (print ''[WS] client connected'' sim_streaming)))
   \<and> fst (ws_control sim_python sim_driver [''{not json'', ''{"type":"bogus"}''] sim_streaming) =
       [invalid_json ''{not json'', unknown_type (PStr ''bogus'')]\<close>
  by code_simp

end
